theory Spec2Isabelle
  imports Complex_Main "HOL-Library.Char_ord" "HOL-Library.List_Lexorder"
    "HOL-Library.Product_Lexorder" "HOL-Library.Option_ord" "HOL-Library.Sublist"
    "HOL-Library.Multiset"
begin

section \<open>Python strings\<close>

text \<open>
  Text is modelled as ASCII: a \<^typ>\<open>string\<close> is a list of characters, compared
  character by character as Python compares code points.
\<close>

definition lower_char :: "char \<Rightarrow> char" where
  "lower_char c =
     (case map_of (zip ''ABCDEFGHIJKLMNOPQRSTUVWXYZ'' ''abcdefghijklmnopqrstuvwxyz'') c of
        Some d \<Rightarrow> d
      | None \<Rightarrow> c)"

text \<open>\<^verbatim>\<open>s.lower()\<close>\<close>

definition lower :: "string \<Rightarrow> string" where
  "lower s = map lower_char s"

text \<open>\<^verbatim>\<open>a in b\<close> on strings: \<open>a\<close> occurs in \<open>b\<close> as a contiguous run.\<close>

fun str_in :: "string \<Rightarrow> string \<Rightarrow> bool" where
  "str_in a [] = (a = [])"
| "str_in a (c # cs) = (prefix a (c # cs) \<or> str_in a cs)"

text \<open>The characters \<^verbatim>\<open>str.strip()\<close> removes: ASCII white space.\<close>

definition is_space :: "char \<Rightarrow> bool" where
  "is_space c = (c \<in> set [CHR '' '', CHR 0x09, CHR 0x0A, CHR 0x0B, CHR 0x0C, CHR 0x0D,
                          CHR 0x1C, CHR 0x1D, CHR 0x1E, CHR 0x1F])"

definition strip :: "string \<Rightarrow> string" where
  "strip s = rev (dropWhile is_space (rev (dropWhile is_space s)))"

text \<open>
  \<^verbatim>\<open>s.replace(old, new)\<close>: every occurrence of \<open>old\<close>, left to right and without
  overlap. The source only calls it with a non-empty \<open>old\<close>; for an empty one the model
  leaves \<open>s\<close> as it is.
\<close>

function replace :: "string \<Rightarrow> string \<Rightarrow> string \<Rightarrow> string" where
  "replace old new [] = []"
| "replace old new (c # cs) =
     (if old \<noteq> [] \<and> prefix old (c # cs)
      then new @ replace old new (drop (length old) (c # cs))
      else c # replace old new cs)"
  by pat_completeness auto
termination
  by (relation "measure (\<lambda>(old, new, s). length s)") auto

text \<open>\<^verbatim>\<open>s.split(',')[0]\<close>: the text before the first comma.\<close>

definition before_comma :: "string \<Rightarrow> string" where
  "before_comma s = takeWhile (\<lambda>c. c \<noteq> CHR '','') s"

section \<open>Exceptions and HTTP\<close>

datatype py_exception =
    RequestException
  | HTTPError nat
  | JSONDecodeError
  | IndexError
  | KeyError string
  | ValueError

text \<open>
  What \<^verbatim>\<open>requests.get(url)\<close>, \<^verbatim>\<open>raise_for_status()\<close> and \<^verbatim>\<open>response.json()\<close>
  give for the county list of the statistical API: the request fails, the status is an
  error, the body is not JSON, or the body is a table of text rows.
\<close>

datatype response =
    Request_Failed
  | Status_Error nat
  | Malformed_Json
  | Json "string list list"

section \<open>County FIPS lookup (\<^verbatim>\<open>utils/area_converter.py\<close>)\<close>

text \<open>Python's \<^verbatim>\<open>xs[i]\<close> for \<open>i \<ge> 0\<close>.\<close>

definition index :: "'a list \<Rightarrow> nat \<Rightarrow> py_exception + 'a" where
  "index xs i = (if i < length xs then Inr (xs ! i) else Inl IndexError)"

definition clean_candidate :: "string \<Rightarrow> string" where
  "clean_candidate name = strip (replace '' County'' '''' (before_comma name))"

text \<open>
  The loop over the counties (lines 33 to 44), with the cleaned query \<open>county_name\<close>.
  It ends at the sentinel of line 51 when no candidate returned.
\<close>

fun match_county :: "string \<Rightarrow> string list list \<Rightarrow> py_exception + string" where
  "match_county county_name [] = Inr ''000''"
| "match_county county_name (county # counties) =
     (case index county 0 of
        Inl e \<Rightarrow> Inl e
      | Inr name \<Rightarrow>
          (let clean_name = clean_candidate name in
           if lower county_name = lower clean_name then index county 2
           else if str_in (lower county_name) (lower clean_name)
                   \<or> str_in (lower clean_name) (lower county_name)
           then index county 2
           else match_county county_name counties))"

definition county_url :: "string \<Rightarrow> string \<Rightarrow> string" where
  "county_url state_fips census_api_key =
     ''https://api.census.gov/data/2010/dec/sf1?get=NAME&for=county:*&in=state:''
       @ state_fips @ ''&key='' @ census_api_key"

text \<open>The body of the \<^verbatim>\<open>try\<close> block: \<open>Inl\<close> is an exception raised inside it.\<close>

definition county_fips_try ::
  "(string \<Rightarrow> response) \<Rightarrow> string \<Rightarrow> string \<Rightarrow> string \<Rightarrow> py_exception + string" where
  "county_fips_try http_get state_fips county_name census_api_key =
     (let county_name = strip (replace '' County'' '''' county_name) in
      case http_get (county_url state_fips census_api_key) of
        Request_Failed \<Rightarrow> Inl RequestException
      | Status_Error code \<Rightarrow> Inl (HTTPError code)
      | Malformed_Json \<Rightarrow> Inl JSONDecodeError
      | Json data \<Rightarrow>
          (case data of
             [] \<Rightarrow> Inl IndexError
           | headers # counties \<Rightarrow> match_county county_name counties))"

text \<open>
  \<^verbatim>\<open>get_county_fips_code\<close>: the \<^verbatim>\<open>except Exception\<close> clause turns every exception
  of the body into the sentinel.
\<close>

definition get_county_fips_code ::
  "(string \<Rightarrow> response) \<Rightarrow> string \<Rightarrow> string \<Rightarrow> string \<Rightarrow> py_exception + string" where
  "get_county_fips_code http_get state_fips county_name census_api_key =
     (case county_fips_try http_get state_fips county_name census_api_key of
        Inl e \<Rightarrow> Inr ''000''
      | Inr fips \<Rightarrow> Inr fips)"

section \<open>Resolving the input rows (\<^verbatim>\<open>convert_input_to_target_areas\<close>)\<close>

text \<open>
  A Python \<^verbatim>\<open>dict\<close> keeps its keys in insertion order; storing under a key that is
  present replaces the value and keeps the key's place.
\<close>

fun dict_set :: "('k \<times> 'v) list \<Rightarrow> 'k \<Rightarrow> 'v \<Rightarrow> ('k \<times> 'v) list" where
  "dict_set [] k v = [(k, v)]"
| "dict_set ((k', v') # d) k v =
     (if k' = k then (k, v) # d else (k', v') # dict_set d k v)"

definition state_mapping :: "(string \<times> string) list" where
  "state_mapping =
    [(''AL'', ''Alabama''), (''AK'', ''Alaska''), (''AZ'', ''Arizona''), (''AR'', ''Arkansas''),
     (''CA'', ''California''), (''CO'', ''Colorado''), (''CT'', ''Connecticut''), (''DE'', ''Delaware''),
     (''FL'', ''Florida''), (''GA'', ''Georgia''), (''HI'', ''Hawaii''), (''ID'', ''Idaho''),
     (''IL'', ''Illinois''), (''IN'', ''Indiana''), (''IA'', ''Iowa''), (''KS'', ''Kansas''),
     (''KY'', ''Kentucky''), (''LA'', ''Louisiana''), (''ME'', ''Maine''), (''MD'', ''Maryland''),
     (''MA'', ''Massachusetts''), (''MI'', ''Michigan''), (''MN'', ''Minnesota''), (''MS'', ''Mississippi''),
     (''MO'', ''Missouri''), (''MT'', ''Montana''), (''NE'', ''Nebraska''), (''NV'', ''Nevada''),
     (''NH'', ''New-Hampshire''), (''NJ'', ''New-Jersey''), (''NM'', ''New-Mexico''), (''NY'', ''New-York''),
     (''NC'', ''North-Carolina''), (''ND'', ''North-Dakota''), (''OH'', ''Ohio''), (''OK'', ''Oklahoma''),
     (''OR'', ''Oregon''), (''PA'', ''Pennsylvania''), (''RI'', ''Rhode-Island''), (''SC'', ''South-Carolina''),
     (''SD'', ''South-Dakota''), (''TN'', ''Tennessee''), (''TX'', ''Texas''), (''UT'', ''Utah''),
     (''VT'', ''Vermont''), (''VA'', ''Virginia''), (''WA'', ''Washington''), (''WV'', ''West-Virginia''),
     (''WI'', ''Wisconsin''), (''WY'', ''Wyoming''), (''DC'', ''District-of-Columbia'')]"

definition state_fips :: "(string \<times> string) list" where
  "state_fips =
    [(''AL'', ''01''), (''AK'', ''02''), (''AZ'', ''04''), (''AR'', ''05''), (''CA'', ''06''), (''CO'', ''08''),
     (''CT'', ''09''), (''DE'', ''10''), (''FL'', ''12''), (''GA'', ''13''), (''HI'', ''15''), (''ID'', ''16''),
     (''IL'', ''17''), (''IN'', ''18''), (''IA'', ''19''), (''KS'', ''20''), (''KY'', ''21''), (''LA'', ''22''),
     (''ME'', ''23''), (''MD'', ''24''), (''MA'', ''25''), (''MI'', ''26''), (''MN'', ''27''), (''MS'', ''28''),
     (''MO'', ''29''), (''MT'', ''30''), (''NE'', ''31''), (''NV'', ''32''), (''NH'', ''33''), (''NJ'', ''34''),
     (''NM'', ''35''), (''NY'', ''36''), (''NC'', ''37''), (''ND'', ''38''), (''OH'', ''39''), (''OK'', ''40''),
     (''OR'', ''41''), (''PA'', ''42''), (''RI'', ''44''), (''SC'', ''45''), (''SD'', ''46''), (''TN'', ''47''),
     (''TX'', ''48''), (''UT'', ''49''), (''VT'', ''50''), (''VA'', ''51''), (''WA'', ''53''), (''WV'', ''54''),
     (''WI'', ''55''), (''WY'', ''56''), (''DC'', ''11'')]"

text \<open>One entry of \<^verbatim>\<open>target_areas\<close>, with the keys of the source's dictionary.\<close>

record target_area =
  state :: string
  county :: string
  fips_state :: string
  fips_county :: string
  city :: string

text \<open>
  What fetching a city's page gives: the request fails, the status is an error, or the
  page arrives. Of a page the code reads the breadcrumb list only: \<open>None\<close> when the
  page has none, otherwise its items, each with the text of its first link if it has one.
\<close>

datatype page =
    Page_Request_Failed
  | Page_Status_Error nat
  | Page "string option list option"

text \<open>The \<^verbatim>\<open>ValueError\<close>s the function raises, by message, with city and state.\<close>

datatype value_error =
    City_not_found string string
  | HTTP_Error_for string string nat
  | Error_scraping string string
  | No_valid_cities

definition city_url :: "string \<Rightarrow> string \<Rightarrow> string" where
  "city_url city_name state_name =
     ''https://www.city-data.com/city/'' @ replace '' '' ''-'' city_name @ ''-'' @ state_name
       @ ''.html''"

definition area_id_of :: "string \<Rightarrow> string \<Rightarrow> string" where
  "area_id_of city_name state_code =
     replace '' '' ''_'' (lower city_name) @ ''_'' @ lower state_code"

definition census_key :: string where
  "census_key = ''856e29b65185c3bc832572b45af9ff5e93758ce6''"

text \<open>
  The \<^verbatim>\<open>try\<close> block of one row (lines 121 to 180) up to the county name: every
  failure leaves it as a \<^verbatim>\<open>ValueError\<close>. A \<^verbatim>\<open>ValueError\<close> raised inside the block
  for a missing breadcrumb is caught by \<^verbatim>\<open>except Exception\<close> and raised again as
  "Error scraping".
\<close>

definition scrape_county :: "page \<Rightarrow> string \<Rightarrow> string \<Rightarrow> value_error + string" where
  "scrape_county pg city_name state_code =
     (case pg of
        Page_Request_Failed \<Rightarrow> Inl (Error_scraping city_name state_code)
      | Page_Status_Error code \<Rightarrow>
          (if code = 404 then Inl (City_not_found city_name state_code)
           else Inl (HTTP_Error_for city_name state_code code))
      | Page None \<Rightarrow> Inl (Error_scraping city_name state_code)
      | Page (Some list_items) \<Rightarrow>
          (if length list_items > 2 then
             (case list_items ! 2 of
                None \<Rightarrow> Inl (Error_scraping city_name state_code)
              | Some link_text \<Rightarrow> Inr (strip link_text))
           else Inl (Error_scraping city_name state_code)))"

text \<open>
  The loop over the input rows, a row being (City, State), with the two dictionaries it
  fills. A row whose state is not in \<open>state_mapping\<close> is passed over (\<^verbatim>\<open>continue\<close>).
\<close>

fun convert_rows ::
  "(string \<Rightarrow> page) \<Rightarrow> (string \<Rightarrow> response) \<Rightarrow> (string \<times> string) list \<Rightarrow>
   (string \<times> target_area) list \<times> (string \<times> string) list \<Rightarrow>
   value_error + (string \<times> target_area) list \<times> (string \<times> string) list" where
  "convert_rows http_page http_get [] acc = Inr acc"
| "convert_rows http_page http_get ((city_name, state_code) # rows)
       (target_areas, county_mapping) =
     (case map_of state_mapping state_code of
        None \<Rightarrow> convert_rows http_page http_get rows (target_areas, county_mapping)
      | Some state_name \<Rightarrow>
          (let state_fips_code =
                 (case map_of state_fips state_code of None \<Rightarrow> ''00'' | Some c \<Rightarrow> c);
               area_id = area_id_of city_name state_code
           in case scrape_county (http_page (city_url city_name state_name)) city_name state_code of
                Inl e \<Rightarrow> Inl e
              | Inr county_name \<Rightarrow>
                  (case get_county_fips_code http_get state_fips_code county_name census_key of
                     Inl e \<Rightarrow> Inl (Error_scraping city_name state_code)
                   | Inr county_fips_code \<Rightarrow>
                       convert_rows http_page http_get rows
                         (dict_set target_areas area_id
                            \<lparr>state = state_code, county = county_name, fips_state = state_fips_code,
                             fips_county = county_fips_code, city = city_name\<rparr>,
                          dict_set county_mapping county_name city_name))))"

definition convert_input_to_target_areas ::
  "(string \<Rightarrow> page) \<Rightarrow> (string \<Rightarrow> response) \<Rightarrow> (string \<times> string) list \<Rightarrow>
   value_error + (string \<times> target_area) list \<times> (string \<times> string) list" where
  "convert_input_to_target_areas http_page http_get input_df =
     (case convert_rows http_page http_get input_df ([], []) of
        Inl e \<Rightarrow> Inl e
      | Inr (target_areas, county_mapping) \<Rightarrow>
          (if target_areas = [] then Inl No_valid_cities
           else Inr (target_areas, county_mapping)))"

section \<open>Time series (\<^verbatim>\<open>census_data.py\<close>, \<^verbatim>\<open>bls_data.py\<close>)\<close>

text \<open>The records the fetchers append, with the keys of the source's dictionaries.\<close>

record location =
  City :: string
  State :: string
  County :: string

record year_record = location +
  Year :: int

record population_record = year_record +
  Population :: "int option"

record age_record = year_record +
  Median_Age :: "real option"

record employment_record = year_record +
  unemployment_rate :: "real option"
  employed :: "real option"

text \<open>Lines 39 to 41: an area without a county FIPS code is passed over.\<close>

definition no_valid_fips :: "target_area \<Rightarrow> bool" where
  "no_valid_fips area_info =
     (fips_county area_info = ''000'' \<or> fips_county area_info = [])"

text \<open>
  One request of the census fetcher (lines 43 to 103). \<open>acs5 year fips_state fips_county\<close>
  stands for lines 47 to 60: the population and the median age read from the response,
  or \<open>None\<close> when any of these lines raises (request, status, JSON, a missing key, a
  value that is not a number). The pair is the record appended to
  \<^verbatim>\<open>all_population_data\<close> and the one appended to \<^verbatim>\<open>all_age_data\<close>.
\<close>

definition census_request ::
  "(int \<Rightarrow> string \<Rightarrow> string \<Rightarrow> (int \<times> real) option) \<Rightarrow> int \<Rightarrow> target_area \<Rightarrow>
   population_record \<times> age_record" where
  "census_request acs5 year area_info =
     (case acs5 year (fips_state area_info) (fips_county area_info) of
        Some (population, median_age) \<Rightarrow>
          (\<lparr>City = city area_info, State = state area_info, County = county area_info,
            Year = year, Population = Some population\<rparr>,
           \<lparr>City = city area_info, State = state area_info, County = county area_info,
            Year = year, Median_Age = Some median_age\<rparr>)
      | None \<Rightarrow>
          (\<lparr>City = city area_info, State = state area_info, County = county area_info,
            Year = year, Population = None\<rparr>,
           \<lparr>City = city area_info, State = state area_info, County = county area_info,
            Year = year, Median_Age = None\<rparr>))"

text \<open>One pass of the loop over the years (lines 25 to 103).\<close>

definition census_year ::
  "(int \<Rightarrow> string \<Rightarrow> string \<Rightarrow> (int \<times> real) option) \<Rightarrow> (string \<times> target_area) list \<Rightarrow>
   int \<Rightarrow> (population_record \<times> age_record) list" where
  "census_year acs5 target_areas year =
     (if year < 2009 then []
      else map (census_request acs5 year)
             (filter (\<lambda>area_info. \<not> no_valid_fips area_info) (map snd target_areas)))"

definition all_census_data ::
  "(int \<Rightarrow> string \<Rightarrow> string \<Rightarrow> (int \<times> real) option) \<Rightarrow> (string \<times> target_area) list \<Rightarrow>
   int \<Rightarrow> int \<Rightarrow> (population_record \<times> age_record) list" where
  "all_census_data acs5 target_areas start_year end_year =
     concat (map (census_year acs5 target_areas) [start_year..end_year])"

definition all_population_data ::
  "(int \<Rightarrow> string \<Rightarrow> string \<Rightarrow> (int \<times> real) option) \<Rightarrow> (string \<times> target_area) list \<Rightarrow>
   int \<Rightarrow> int \<Rightarrow> population_record list" where
  "all_population_data acs5 target_areas start_year end_year =
     map fst (all_census_data acs5 target_areas start_year end_year)"

definition all_age_data ::
  "(int \<Rightarrow> string \<Rightarrow> string \<Rightarrow> (int \<times> real) option) \<Rightarrow> (string \<times> target_area) list \<Rightarrow>
   int \<Rightarrow> int \<Rightarrow> age_record list" where
  "all_age_data acs5 target_areas start_year end_year =
     map snd (all_census_data acs5 target_areas start_year end_year)"

subsection \<open>The employment fetcher's requests\<close>

text \<open>
  \<^verbatim>\<open>s.split(sep)\<close> for a separator that is not empty, and \<^verbatim>\<open>s.rstrip(')')\<close>.
\<close>

function split_at :: "string \<Rightarrow> string \<Rightarrow> string \<Rightarrow> string list" where
  "split_at sep part [] = [rev part]"
| "split_at sep part (c # cs) =
     (if sep \<noteq> [] \<and> prefix sep (c # cs)
      then rev part # split_at sep [] (drop (length sep) (c # cs))
      else split_at sep (c # part) cs)"
  by pat_completeness auto
termination
  by (relation "measure (\<lambda>(sep, part, s). length s)") auto

definition split :: "string \<Rightarrow> string \<Rightarrow> string list" where
  "split sep s = split_at sep [] s"

definition rstrip_paren :: "string \<Rightarrow> string" where
  "rstrip_paren s = rev (dropWhile (\<lambda>c. c = CHR '')'') (rev s))"

text \<open>Lines 22 to 31: the area codes by location key, for the areas with a FIPS code.\<close>

definition location_key_of :: "target_area \<Rightarrow> string" where
  "location_key_of area_info =
     city area_info @ '', '' @ state area_info @ '' ('' @ county area_info @ '')''"

definition bls_area_codes :: "(string \<times> target_area) list \<Rightarrow> (string \<times> string) list" where
  "bls_area_codes target_areas =
     foldl (\<lambda>codes area_info.
              dict_set codes (location_key_of area_info)
                (fips_state area_info @ fips_county area_info))
       []
       (filter (\<lambda>area_info. \<not> no_valid_fips area_info) (map snd target_areas))"

datatype data_type = Unemployment_rate | Employed

text \<open>Lines 47 to 59: the series requested for a year, and the location of each.\<close>

definition unemp_series :: "string \<Rightarrow> string" where
  "unemp_series area_code = ''LAUCN'' @ area_code @ ''0000000003''"

definition emp_series :: "string \<Rightarrow> string" where
  "emp_series area_code = ''LAUCN'' @ area_code @ ''0000000005''"

definition series_ids :: "(string \<times> string) list \<Rightarrow> string list" where
  "series_ids codes =
     concat (map (\<lambda>(location_key, area_code). [unemp_series area_code, emp_series area_code])
               codes)"

definition series_to_location ::
  "(string \<times> string) list \<Rightarrow> (string \<times> string \<times> data_type) list" where
  "series_to_location codes =
     foldl (\<lambda>m (location_key, area_code).
              dict_set (dict_set m (unemp_series area_code) (location_key, Unemployment_rate))
                (emp_series area_code) (location_key, Employed))
       [] codes"

text \<open>\<^verbatim>\<open>series_ids[i:i + batch_size]\<close> for \<open>i = 0, batch_size, ...\<close>\<close>

function batches :: "nat \<Rightarrow> 'a list \<Rightarrow> 'a list list" where
  "batches batch_size xs =
     (if batch_size = 0 \<or> xs = [] then []
      else take batch_size xs # batches batch_size (drop batch_size xs))"
  by pat_completeness auto
termination
  by (relation "measure (\<lambda>(batch_size, xs). length xs)") auto

declare batches.simps [simp del]

text \<open>
  What one request of a batch gives (lines 78 to 101): a line of the request or of the
  reading of its result raises; the status is not \<^verbatim>\<open>REQUEST_SUCCEEDED\<close>; or the series
  of the result, each with its identifier and its first value, if it has data.
\<close>

datatype bls_result =
    Bls_Raised
  | Bls_Not_Succeeded
  | Bls_Series "(string \<times> real option) list"

text \<open>Lines 85 to 101: the values of the year by location key, in the order they came.\<close>

definition store_value ::
  "(string \<times> real option \<times> real option) list \<Rightarrow> string \<Rightarrow> data_type \<Rightarrow> real \<Rightarrow>
   (string \<times> real option \<times> real option) list" where
  "store_value year_employment_data location_key dt v =
     (let emp_data = (case map_of year_employment_data location_key of
                        Some d \<Rightarrow> d | None \<Rightarrow> (None, None))
      in dict_set year_employment_data location_key
           (case dt of
              Unemployment_rate \<Rightarrow> (Some v, snd emp_data)
            | Employed \<Rightarrow> (fst emp_data, Some v)))"

definition year_employment_data_of ::
  "(string \<times> string \<times> data_type) list \<Rightarrow> (string \<times> real option) list \<Rightarrow>
   (string \<times> real option \<times> real option) list" where
  "year_employment_data_of locations series =
     foldl (\<lambda>d (series_id, v).
              case map_of locations series_id of
                None \<Rightarrow> d
              | Some (location_key, dt) \<Rightarrow>
                  (case v of None \<Rightarrow> d | Some x \<Rightarrow> store_value d location_key dt x))
       [] series"

text \<open>
  Lines 104 to 120: the records appended for the locations of a batch. Reading city,
  state and county back out of a location key raises when the key does not split as
  expected; the records appended before stay.
\<close>

fun employment_records ::
  "int \<Rightarrow> (string \<times> real option \<times> real option) list \<Rightarrow> employment_record list" where
  "employment_records year [] = []"
| "employment_records year ((location_key, emp_data) # rest) =
     (let parts = split '' ('' location_key;
          city_state = split '', '' (parts ! 0)
      in if length city_state > 1 \<and> length parts > 1 then
           \<lparr>City = city_state ! 0, State = city_state ! 1, County = rstrip_paren (parts ! 1),
            Year = year, unemployment_rate = fst emp_data, employed = snd emp_data\<rparr>
             # employment_records year rest
         else [])"

text \<open>One batch (lines 63 to 129), and all the years (lines 41 to 133).\<close>

definition bls_batch ::
  "(int \<Rightarrow> string list \<Rightarrow> bls_result) \<Rightarrow> (string \<times> string) list \<Rightarrow> int \<Rightarrow> string list \<Rightarrow>
   employment_record list" where
  "bls_batch bls_api codes year batch_series =
     (case bls_api year batch_series of
        Bls_Raised \<Rightarrow> []
      | Bls_Not_Succeeded \<Rightarrow> []
      | Bls_Series series \<Rightarrow>
          employment_records year (year_employment_data_of (series_to_location codes) series))"

definition all_employment_data ::
  "(int \<Rightarrow> string list \<Rightarrow> bls_result) \<Rightarrow> (string \<times> target_area) list \<Rightarrow> int \<Rightarrow> int \<Rightarrow>
   employment_record list" where
  "all_employment_data bls_api target_areas start_year end_year =
     (let codes = bls_area_codes target_areas
      in if codes = [] then []
         else concat (map (\<lambda>year. concat (map (bls_batch bls_api codes year)
                                             (batches 50 (series_ids codes))))
                        [start_year..end_year]))"

subsection \<open>Trend analysis\<close>

text \<open>
  \<^verbatim>\<open>df.groupby(['City', 'State', 'County'])\<close>: the groups in the order of their sorted
  keys, each with its rows in their order in the table.
\<close>

definition location_key :: "'a location_scheme \<Rightarrow> string \<times> string \<times> string" where
  "location_key r = (City r, State r, County r)"

definition groupby ::
  "'a location_scheme list \<Rightarrow> ((string \<times> string \<times> string) \<times> 'a location_scheme list) list" where
  "groupby df =
     map (\<lambda>k. (k, filter (\<lambda>r. location_key r = k) df)) (sort (remdups (map location_key df)))"

text \<open>
  \<^verbatim>\<open>x ** (1/d)\<close> on floats, for a whole number \<open>d > 0\<close>, over the reals. The power of a
  negative number with a fractional exponent is not a number: \<open>None\<close>.
\<close>

definition float_root :: "real \<Rightarrow> int \<Rightarrow> real option" where
  "float_root x d =
     (if 0 \<le> x then Some (x powr (1 / real_of_int d))
      else if d = 1 then Some x
      else None)"

record trend_row = location +
  Years_Analyzed :: int

record growth_row = trend_row +
  Start_Population :: int
  End_Population :: int
  Total_Growth_Pct :: real
  CAGR_Pct :: "real option"

text \<open>
  The body of the loop over the groups (lines 120 to 145): the row appended to
  \<^verbatim>\<open>growth_analysis\<close> for one location, if one is. \<^verbatim>\<open>sort_values('Year')\<close> is
  written as the sort by year that keeps the records of one year in their order; that
  order is left to the sort kind, and matters only for a location with several records
  of one year.
\<close>

definition growth_entry ::
  "string \<times> string \<times> string \<Rightarrow> population_record list \<Rightarrow> growth_row option" where
  "growth_entry k location_data =
     (let location_data = sort_key Year location_data;
          location_data = filter (\<lambda>r. Population r \<noteq> None) location_data
      in if length location_data \<ge> 2 then
           (let start_pop = the (Population (hd location_data));
                end_pop = the (Population (last location_data));
                start_yr = Year (hd location_data);
                end_yr = Year (last location_data);
                years_diff = end_yr - start_yr
            in if years_diff > 0 \<and> start_pop > 0 then
                 Some \<lparr>City = fst k, State = fst (snd k), County = snd (snd k),
                       Years_Analyzed = years_diff,
                       Start_Population = start_pop,
                       End_Population = end_pop,
                       Total_Growth_Pct =
                         (real_of_int (end_pop - start_pop) / real_of_int start_pop) * 100,
                       CAGR_Pct =
                         map_option (\<lambda>p. (p - 1) * 100)
                           (float_root (real_of_int end_pop / real_of_int start_pop) years_diff)\<rparr>
               else None)
         else None)"

definition population_growth_analysis :: "population_record list \<Rightarrow> growth_row list" where
  "population_growth_analysis population_df =
     (if population_df \<noteq> [] \<and> length (remdups (map Year population_df)) > 1
      then List.map_filter (\<lambda>(k, location_data). growth_entry k location_data)
             (groupby population_df)
      else [])"

text \<open>
  \<^verbatim>\<open>df.sort_values(col, ascending=False)\<close> leaves the sort kind at its default,
  quicksort, which is not stable. The sorting of the numbers is therefore a parameter
  \<open>argsort\<close>, numpy's \<^verbatim>\<open>argsort(kind='quicksort')\<close>: the positions of a list of keys
  in an order of rising keys. Only that it sorts is known of it, not the order it gives
  to equal keys.
\<close>

definition valid_argsort :: "(real list \<Rightarrow> nat list) \<Rightarrow> bool" where
  "valid_argsort argsort =
     (\<forall>keys. mset (argsort keys) = mset [0..<length keys]
             \<and> sorted (map (\<lambda>i. keys ! i) (argsort keys)))"

text \<open>
  pandas' \<^verbatim>\<open>nargsort(items, kind, ascending=False, na_position='last')\<close>: the values
  that are numbers and their positions are reversed, sorted, and the result is
  reversed; the positions of the values that are not numbers follow.
\<close>

definition nargsort_desc :: "(real list \<Rightarrow> nat list) \<Rightarrow> real option list \<Rightarrow> nat list" where
  "nargsort_desc argsort items =
     (let idx = [0..<length items];
          non_nan_idx = rev (filter (\<lambda>i. items ! i \<noteq> None) idx);
          non_nans = map (\<lambda>i. the (items ! i)) non_nan_idx;
          nan_idx = filter (\<lambda>i. items ! i = None) idx;
          indexer = rev (map (\<lambda>j. non_nan_idx ! j) (argsort non_nans))
      in indexer @ nan_idx)"

definition sort_values_desc ::
  "(real list \<Rightarrow> nat list) \<Rightarrow> ('a \<Rightarrow> real option) \<Rightarrow> 'a list \<Rightarrow> 'a list" where
  "sort_values_desc argsort col df = map (\<lambda>i. df ! i) (nargsort_desc argsort (map col df))"

text \<open>
  Lines 155 to 165: the first row of the sorted table. \<^verbatim>\<open>strongest_market_info\<close>
  copies its city, county, CAGR and total growth.
\<close>

definition strongest_market ::
  "(real list \<Rightarrow> nat list) \<Rightarrow> population_record list \<Rightarrow> growth_row option" where
  "strongest_market argsort population_df =
     (let growth_analysis = population_growth_analysis population_df
      in if growth_analysis \<noteq> []
         then Some (hd (sort_values_desc argsort CAGR_Pct growth_analysis))
         else None)"

record employment_row = trend_row +
  Start_Employed :: real
  End_Employed :: real
  Employment_Growth_Pct :: real
  Employment_CAGR_Pct :: "real option"
  Start_Unemployment_Rate :: real
  End_Unemployment_Rate :: real
  Unemployment_Change :: real
  Composite_Score :: "real option"

text \<open>The body of the loop over the groups of the employment table (lines 149 to 187).\<close>

definition employment_entry ::
  "string \<times> string \<times> string \<Rightarrow> employment_record list \<Rightarrow> employment_row option" where
  "employment_entry k location_data =
     (let location_data = sort_key Year location_data;
          location_data =
            filter (\<lambda>r. employed r \<noteq> None \<and> unemployment_rate r \<noteq> None) location_data
      in if length location_data \<ge> 2 then
           (let start_employed = the (employed (hd location_data));
                end_employed = the (employed (last location_data));
                start_yr = Year (hd location_data);
                end_yr = Year (last location_data);
                start_unemployment = the (unemployment_rate (hd location_data));
                end_unemployment = the (unemployment_rate (last location_data));
                years_diff = end_yr - start_yr
            in if years_diff > 0 \<and> start_employed > 0 then
                 (let employment_growth = ((end_employed - start_employed) / start_employed) * 100;
                      employment_cagr =
                        map_option (\<lambda>p. (p - 1) * 100)
                          (float_root (end_employed / start_employed) years_diff);
                      unemployment_change = end_unemployment - start_unemployment;
                      composite_score =
                        map_option (\<lambda>c. c - (unemployment_change * 2)) employment_cagr
                  in Some \<lparr>City = fst k, State = fst (snd k), County = snd (snd k),
                           Years_Analyzed = years_diff,
                           Start_Employed = start_employed,
                           End_Employed = end_employed,
                           Employment_Growth_Pct = employment_growth,
                           Employment_CAGR_Pct = employment_cagr,
                           Start_Unemployment_Rate = start_unemployment,
                           End_Unemployment_Rate = end_unemployment,
                           Unemployment_Change = unemployment_change,
                           Composite_Score = composite_score\<rparr>)
               else None)
         else None)"

definition employment_analysis :: "employment_record list \<Rightarrow> employment_row list" where
  "employment_analysis employment_df =
     (if employment_df \<noteq> [] \<and> length (remdups (map Year employment_df)) > 1
      then List.map_filter (\<lambda>(k, location_data). employment_entry k location_data)
             (groupby employment_df)
      else [])"

definition strongest_employment_market ::
  "(real list \<Rightarrow> nat list) \<Rightarrow> employment_record list \<Rightarrow> employment_row option" where
  "strongest_employment_market argsort employment_df =
     (let analysis = employment_analysis employment_df
      in if analysis \<noteq> []
         then Some (hd (sort_values_desc argsort Composite_Score analysis))
         else None)"
section \<open>Crime tables (\<^verbatim>\<open>crime_data.py\<close>)\<close>

text \<open>
  What the parser reads of the table's markup. Of a cell: the text of its first
  \<^verbatim>\<open><b>\<close> element, if it has one, and the cell's own text. Of the table: the header
  cells of the first row of \<^verbatim>\<open>thead\<close>, the rows of \<^verbatim>\<open>tbody\<close>, the cells of the first
  row of \<^verbatim>\<open>tfoot\<close>; the outer \<open>None\<close> is a missing section, the inner one a section
  without a row.
\<close>

record td =
  td_b :: "string option"
  td_text :: string

record crtable =
  thead :: "string list option option"
  tbody :: "td list list option"
  tfoot :: "td list option option"

text \<open>
  A table of crime rows: the columns after \<^verbatim>\<open>City\<close> and \<^verbatim>\<open>Crime_Type\<close>, and the
  rows, each with its city, its crime type and one cell for each of these columns
  (\<open>None\<close> is a missing value).
\<close>

type_synonym crime_row = "string \<times> string \<times> string option list"

record crime_frame =
  crime_columns :: "string list"
  crime_rows :: "crime_row list"

definition is_digit :: "char \<Rightarrow> bool" where
  "is_digit c = (c \<in> set ''0123456789'')"

text \<open>\<^verbatim>\<open>col.isdigit()\<close>\<close>

definition isdigit :: "string \<Rightarrow> bool" where
  "isdigit s = (s \<noteq> [] \<and> list_all is_digit s)"

definition digit_value :: "char \<Rightarrow> nat" where
  "digit_value c = (case map_of (zip ''0123456789'' [0, 1, 2, 3, 4, 5, 6, 7, 8, 9]) c of
                      Some n \<Rightarrow> n | None \<Rightarrow> 0)"

text \<open>\<^verbatim>\<open>int(count_str)\<close> for a run of digits; the empty run raises and leaves 0 (line 58).\<close>

definition int_of_digits :: "string \<Rightarrow> nat" where
  "int_of_digits s = foldl (\<lambda>n c. 10 * n + digit_value c) 0 s"

fun decimal :: "nat \<Rightarrow> string" where
  "decimal n = (if n < 10 then [''0123456789'' ! n]
                else decimal (n div 10) @ [''0123456789'' ! (n mod 10)])"

function group_thousands :: "string \<Rightarrow> string" where
  "group_thousands s =
     (if length s \<le> 3 then s
      else group_thousands (take (length s - 3) s) @ '','' @ drop (length s - 3) s)"
  by pat_completeness auto
termination
  by (relation "measure length") auto

declare decimal.simps [simp del] group_thousands.simps [simp del]

text \<open>\<^verbatim>\<open>f"{raw_count:,}"\<close>\<close>

definition format_count :: "nat \<Rightarrow> string" where
  "format_count n = group_thousands (decimal n)"

text \<open>
  \<^verbatim>\<open>re.search(r'\(([^)]+)\)', cell_text)\<close>: the text between the first opening
  parenthesis that is followed by at least one character other than a closing
  parenthesis and then by a closing one, and that closing parenthesis.
\<close>

fun rate_search :: "string \<Rightarrow> string option" where
  "rate_search [] = None"
| "rate_search (c # cs) =
     (if c = CHR ''(''
         \<and> takeWhile (\<lambda>x. x \<noteq> CHR '')'') cs \<noteq> []
         \<and> dropWhile (\<lambda>x. x \<noteq> CHR '')'') cs \<noteq> []
      then Some (takeWhile (\<lambda>x. x \<noteq> CHR '')'') cs)
      else rate_search cs)"

text \<open>Lines 50 to 69: the value stored for one cell of a body row.\<close>

definition format_cell :: "td \<Rightarrow> string" where
  "format_cell cell =
     (let cell_text = strip (td_text cell) in
      if cell_text \<noteq> [] then
        (let count_match = takeWhile (\<lambda>c. is_digit c \<or> c = CHR '','') cell_text;
             count_str = (if count_match \<noteq> [] then filter (\<lambda>c. c \<noteq> CHR '','') count_match
                          else ''0'');
             raw_count = int_of_digits count_str
         in case rate_search cell_text of
              Some rate_per_100k \<Rightarrow> format_count raw_count @ '' ('' @ rate_per_100k @ '')''
            | None \<Rightarrow> format_count raw_count)
      else ''0'')"

text \<open>
  The dictionary of one body row (lines 44 to 69): the cell at position \<open>i \<ge> 1\<close> is
  stored under the header at position \<open>i\<close>, when there is one.
\<close>

definition row_data_of ::
  "string \<Rightarrow> string \<Rightarrow> string list \<Rightarrow> td list \<Rightarrow> (string \<times> string) list" where
  "row_data_of city_name crime_type headers cells =
     foldl (\<lambda>row_data (year, cell). dict_set row_data year (format_cell cell))
       [(''City'', city_name), (''Crime_Type'', crime_type)]
       (zip (tl headers) (tl cells))"

text \<open>The loop over the body rows (lines 31 to 71): the dictionaries appended, in order.\<close>

fun body_rows :: "string \<Rightarrow> string list \<Rightarrow> td list list \<Rightarrow> (string \<times> string) list list" where
  "body_rows city_name headers [] = []"
| "body_rows city_name headers (cells # rows) =
     (if length cells \<ge> 2 then
        (case td_b (hd cells) of
           None \<Rightarrow> body_rows city_name headers rows
         | Some b \<Rightarrow>
             (let crime_type = strip b in
              if crime_type = ''City-Data.com crime index''
              then body_rows city_name headers rows
              else row_data_of city_name crime_type headers cells
                     # body_rows city_name headers rows))
      else body_rows city_name headers rows)"

text \<open>\<^verbatim>\<open>d['Crime_Type']\<close>, a key every dictionary of \<^verbatim>\<open>crime_data\<close> has.\<close>

definition dict_get :: "(string \<times> string) list \<Rightarrow> string \<Rightarrow> string" where
  "dict_get d k = (case map_of d k of Some v \<Rightarrow> v | None \<Rightarrow> [])"

text \<open>Lines 74 to 88: the footer's dictionary, appended unless a row is a Crime Index.\<close>

definition footer_rows ::
  "string \<Rightarrow> string list \<Rightarrow> td list option option \<Rightarrow> (string \<times> string) list list \<Rightarrow>
   (string \<times> string) list list" where
  "footer_rows city_name headers foot crime_data =
     (case foot of
        Some (Some cells) \<Rightarrow>
          (if length cells \<ge> 2
              \<and> \<not> list_ex (\<lambda>d. dict_get d ''Crime_Type'' = ''Crime Index'') crime_data
           then [foldl (\<lambda>crime_index_data (year, cell).
                          dict_set crime_index_data year
                            (let v = strip (td_text cell) in if v \<noteq> [] then v else ''Not Found''))
                   [(''City'', city_name), (''Crime_Type'', ''Crime Index'')]
                   (zip (tl headers) (tl cells))]
           else [])
      | _ \<Rightarrow> [])"

text \<open>
  Line 100: a row is dropped when it is a Crime Index and a later row has its city and
  crime type.
\<close>

fun drop_earlier_crime_index :: "crime_row list \<Rightarrow> crime_row list" where
  "drop_earlier_crime_index [] = []"
| "drop_earlier_crime_index (r # rs) =
     (if list_ex (\<lambda>r'. fst r' = fst r \<and> fst (snd r') = fst (snd r)) rs
         \<and> fst (snd r) = ''Crime Index''
      then drop_earlier_crime_index rs
      else r # drop_earlier_crime_index rs)"

text \<open>
  Lines 91 to 97: the table of the dictionaries. Its columns are the keys in the order
  of their first appearance; the year columns are those whose name is a number; the
  table keeps City, Crime_Type and the year columns. A cell a dictionary has no value
  for is filled with "Not Found" (line 102).
\<close>

definition year_cols_of :: "(string \<times> string) list list \<Rightarrow> string list" where
  "year_cols_of crime_data =
     filter isdigit (rev (remdups (rev (concat (map (map fst) crime_data)))))"

definition table_rows :: "(string \<times> string) list list \<Rightarrow> crime_row list" where
  "table_rows crime_data =
     map (\<lambda>d. (dict_get d ''City'', dict_get d ''Crime_Type'',
                map (\<lambda>col. case map_of d col of
                             Some v \<Rightarrow> Some v
                           | None \<Rightarrow> Some ''Not Found'') (year_cols_of crime_data)))
       crime_data"

text \<open>Lines 91 to 103: the table returned for the dictionaries.\<close>

definition frame_of :: "(string \<times> string) list list \<Rightarrow> crime_frame" where
  "frame_of crime_data =
     \<lparr>crime_columns = year_cols_of crime_data,
      crime_rows = drop_earlier_crime_index (table_rows crime_data)\<rparr>"

text \<open>Lines 28 to 88: the dictionaries of the body rows, then the footer's.\<close>

definition crime_data_of ::
  "string \<Rightarrow> string list \<Rightarrow> td list list \<Rightarrow> td list option option \<Rightarrow>
   (string \<times> string) list list" where
  "crime_data_of city_name headers rows foot =
     (let crime_data = body_rows city_name headers rows
      in crime_data @ footer_rows city_name headers foot crime_data)"

datatype parse_error = AttributeError

text \<open>
  \<^verbatim>\<open>parse_crime_table\<close>: \<open>Inr None\<close> is the \<^verbatim>\<open>None\<close> it returns for a missing table,
  header or body; a header section without a row raises at line 21.
\<close>

definition parse_crime_table ::
  "crtable option \<Rightarrow> string \<Rightarrow> parse_error + crime_frame option" where
  "parse_crime_table table city_name =
     (case table of
        None \<Rightarrow> Inr None
      | Some t \<Rightarrow>
          (case thead t of
             None \<Rightarrow> Inr None
           | Some None \<Rightarrow> Inl AttributeError
           | Some (Some headers) \<Rightarrow>
               (case tbody t of
                  None \<Rightarrow> Inr None
                | Some rows \<Rightarrow>
                    Inr (Some (frame_of
                      (crime_data_of city_name (map strip headers) rows (tfoot t)))))))"
section \<open>Reconciliation (\<^verbatim>\<open>analysis/data_analysis.py\<close>)\<close>

datatype cell_value = Int_value int | Float_value real | Str_value string

text \<open>
  A table keyed by county, as the function builds them: the names of its columns, in
  order (none for \<^verbatim>\<open>pd.DataFrame()\<close>, otherwise \<^verbatim>\<open>County\<close> first), and its rows, each
  with its county and one cell for each column after \<^verbatim>\<open>County\<close> (\<open>None\<close> is a missing
  value).
\<close>

record frame =
  columns :: "string list"
  rows :: "(string \<times> cell_value option list) list"

text \<open>\<^verbatim>\<open>df.empty\<close>\<close>

definition df_empty :: "frame \<Rightarrow> bool" where
  "df_empty df = (columns df = [] \<or> rows df = [])"

text \<open>
  \<^verbatim>\<open>left.merge(right, on='County', how='outer')\<close>, for tables that share no column but
  \<^verbatim>\<open>County\<close>: the counties of both tables in sorted order, each with every pairing of
  its rows in the two tables, and with missing values where one table has no row.
\<close>

definition merge_outer :: "frame \<Rightarrow> frame \<Rightarrow> frame" where
  "merge_outer left right =
     \<lparr>columns = columns left @ tl (columns right),
      rows =
        concat (map (\<lambda>k.
            (let ls = filter (\<lambda>r. fst r = k) (rows left);
                 rs = filter (\<lambda>r. fst r = k) (rows right)
             in if rs = [] then
                  map (\<lambda>l. (k, snd l @ replicate (length (tl (columns right))) None)) ls
                else if ls = [] then
                  map (\<lambda>r. (k, replicate (length (tl (columns left))) None @ snd r)) rs
                else concat (map (\<lambda>l. map (\<lambda>r. (k, snd l @ snd r)) rs) ls)))
          (sort (remdups (map fst (rows left) @ map fst (rows right)))))\<rparr>"

text \<open>
  \<^verbatim>\<open>left.merge(right, on='County', how='left')\<close>: the rows of the left table in their
  order, each paired with every row of the right table that has its county, or with
  missing values when there is none.
\<close>

definition merge_left :: "frame \<Rightarrow> frame \<Rightarrow> frame" where
  "merge_left left right =
     \<lparr>columns = columns left @ tl (columns right),
      rows =
        concat (map (\<lambda>l.
            (let rs = filter (\<lambda>r. fst r = fst l) (rows right)
             in if rs = [] then
                  [(fst l, snd l @ replicate (length (tl (columns right))) None)]
                else map (\<lambda>r. (fst l, snd l @ snd r)) rs))
          (rows left))\<rparr>"

text \<open>
  The tables the fetchers return: the latest year's population and median age by
  county, and the latest year's unemployment rate and employment.
\<close>

definition population_frame :: "(string \<times> int option) list \<Rightarrow> frame" where
  "population_frame population_df =
     \<lparr>columns = [''County'', ''Population''],
      rows = map (\<lambda>(c, p). (c, [map_option Int_value p])) population_df\<rparr>"

definition age_frame :: "(string \<times> real option) list \<Rightarrow> frame" where
  "age_frame age_df =
     \<lparr>columns = [''County'', ''Median Age''],
      rows = map (\<lambda>(c, a). (c, [map_option Float_value a])) age_df\<rparr>"

definition employment_frame :: "(string \<times> real option \<times> real option) list \<Rightarrow> frame" where
  "employment_frame employment_df =
     \<lparr>columns = [''County'', ''unemployment_rate'', ''employed''],
      rows = map (\<lambda>(c, u, e). (c, [map_option Float_value u, map_option Float_value e]))
               employment_df\<rparr>"

text \<open>Lines 13 to 36: the demographic table before the crime data.\<close>

definition demographic_merge ::
  "(string \<times> int option) list \<Rightarrow> (string \<times> real option) list \<Rightarrow>
   (string \<times> real option \<times> real option) list option \<Rightarrow> frame" where
  "demographic_merge population_df age_df employment_df =
     (let demographic_data = \<lparr>columns = [], rows = []\<rparr>;
          demographic_data =
            (if population_df \<noteq> [] then population_frame population_df else demographic_data);
          demographic_data =
            (if age_df \<noteq> [] then
               (if df_empty demographic_data then age_frame age_df
                else merge_outer demographic_data (age_frame age_df))
             else demographic_data)
      in case employment_df of
           None \<Rightarrow> demographic_data
         | Some employment \<Rightarrow>
             (if employment \<noteq> [] then
                (if df_empty demographic_data then employment_frame employment
                 else merge_outer demographic_data (employment_frame employment))
              else demographic_data))"

text \<open>Line 45: the columns taken for year columns.\<close>

definition year_columns :: "string list \<Rightarrow> string list" where
  "year_columns cols = filter (\<lambda>col. suffix ''_count'' col \<and> col \<noteq> ''Crime_Type'') cols"

text \<open>
  The value of a row's cell in a column, missing when the table has no such column. The
  names of a table's columns differ from each other.
\<close>

fun cell_of :: "string list \<Rightarrow> 'a option list \<Rightarrow> string \<Rightarrow> 'a option" where
  "cell_of (c # cs) (v # vs) col = (if c = col then v else cell_of cs vs col)"
| "cell_of _ _ col = None"

text \<open>Lines 56 to 60.\<close>

definition city_to_county_mapping :: "(string \<times> target_area) list \<Rightarrow> (string \<times> string) list" where
  "city_to_county_mapping target_areas =
     foldl (\<lambda>m (area_id, area_info). dict_set m (city area_info) (county area_info)) []
       target_areas"

text \<open>Lines 63 to 66: the county given to the crime table's city \<open>x\<close>.\<close>

definition county_for :: "(string \<times> string) list \<Rightarrow> string \<Rightarrow> string" where
  "county_for mapping x =
     (case find (\<lambda>(city_name, county_name).
                   str_in (lower city_name) (lower x) \<or> str_in (lower x) (lower city_name))
             mapping of
        Some (city_name, county_name) \<Rightarrow> county_name
      | None \<Rightarrow> x)"

text \<open>
  Lines 41 to 66: \<^verbatim>\<open>crime_summary\<close>, a row (City, Crime_Index, County) for every
  Crime Index row with a value in the latest year column; \<open>None\<close> when the table has no
  Crime Index row or no year column.
\<close>

definition crime_summary ::
  "crime_frame \<Rightarrow> (string \<times> target_area) list \<Rightarrow> (string \<times> string \<times> string) list option" where
  "crime_summary crime_df target_areas =
     (let crime_index_data = filter (\<lambda>r. fst (snd r) = ''Crime Index'') (crime_rows crime_df)
      in if crime_index_data \<noteq> [] then
           (if year_columns (crime_columns crime_df) \<noteq> [] then
              (let latest_year_col = last (sort (year_columns (crime_columns crime_df)));
                   mapping = city_to_county_mapping target_areas
               in Some (List.map_filter
                          (\<lambda>r. map_option (\<lambda>v. (fst r, v, county_for mapping (fst r)))
                                 (cell_of (crime_columns crime_df) (snd (snd r)) latest_year_col))
                          crime_index_data))
            else None)
         else None)"

text \<open>\<^verbatim>\<open>crime_summary[['County', 'Crime_Index']]\<close>\<close>

definition crime_index_frame :: "(string \<times> string \<times> string) list \<Rightarrow> frame" where
  "crime_index_frame summary =
     \<lparr>columns = [''County'', ''Crime_Index''],
      rows = map (\<lambda>(city_name, crime_index, county_name). (county_name, [Some (Str_value crime_index)]))
               summary\<rparr>"

text \<open>Lines 13 to 76: \<^verbatim>\<open>demographic_data\<close> as it is saved at line 84.\<close>

definition merged_demographic_data ::
  "(string \<times> int option) list \<Rightarrow> (string \<times> real option) list \<Rightarrow>
   (string \<times> real option \<times> real option) list option \<Rightarrow> crime_frame option \<Rightarrow>
   (string \<times> target_area) list option \<Rightarrow> frame" where
  "merged_demographic_data population_df age_df employment_df crime_df target_areas =
     (let demographic_data = demographic_merge population_df age_df employment_df
      in case (crime_df, target_areas) of
           (Some crime, Some areas) \<Rightarrow>
             (if crime_rows crime \<noteq> [] then
                (case crime_summary crime areas of
                   Some summary \<Rightarrow>
                     (if \<not> df_empty demographic_data
                      then merge_left demographic_data (crime_index_frame summary)
                      else crime_index_frame summary)
                 | None \<Rightarrow> demographic_data)
              else demographic_data)
         | _ \<Rightarrow> demographic_data)"

text \<open>
  \<^verbatim>\<open>create_summary_report\<close> (lines 101 to 192) writes every row's Population, Median
  Age, unemployment_rate, employed and Crime_Index, where the table has the column and
  the row a value, with a number format (lines 113 to 122). Formatting a text so raises
  \<^verbatim>\<open>ValueError\<close>; nothing else in the report raises for a table of this function.
\<close>

definition report_columns :: "string list" where
  "report_columns =
     [''Population'', ''Median Age'', ''unemployment_rate'', ''employed'', ''Crime_Index'']"

definition is_text :: "cell_value option \<Rightarrow> bool" where
  "is_text v = (case v of Some (Str_value s) \<Rightarrow> True | _ \<Rightarrow> False)"

definition create_summary_report :: "frame \<Rightarrow> py_exception + unit" where
  "create_summary_report demographic_data =
     (if list_ex (\<lambda>row.
            list_ex (\<lambda>col. col \<in> set (columns demographic_data)
                           \<and> is_text (cell_of (tl (columns demographic_data)) (snd row) col))
              report_columns)
          (rows demographic_data)
      then Inl ValueError
      else Inr ())"

text \<open>
  \<^verbatim>\<open>analyze_and_visualize_data\<close>: the merged table is returned (line 99) after the
  report is written (line 97), unless writing the report raises.
\<close>

definition analyze_and_visualize_data ::
  "(string \<times> int option) list \<Rightarrow> (string \<times> real option) list \<Rightarrow>
   (string \<times> real option \<times> real option) list option \<Rightarrow> crime_frame option \<Rightarrow>
   (string \<times> target_area) list option \<Rightarrow> py_exception + frame" where
  "analyze_and_visualize_data population_df age_df employment_df crime_df target_areas =
     (let demographic_data =
            merged_demographic_data population_df age_df employment_df crime_df target_areas
      in case create_summary_report demographic_data of
           Inl e \<Rightarrow> Inl e
         | Inr written \<Rightarrow> Inr demographic_data)"

section \<open>Example inputs\<close>

text \<open>
  The county list of Minnesota as the statistical API orders it, cut to two counties:
  Lake County comes before Lake of the Woods County.
\<close>

definition ex_minnesota :: "string \<Rightarrow> response" where
  "ex_minnesota url =
     Json [[''NAME'', ''state'', ''county''],
           [''Lake County, Minnesota'', ''27'', ''075''],
           [''Lake of the Woods County, Minnesota'', ''27'', ''077'']]"

definition ex_florida :: "string \<Rightarrow> response" where
  "ex_florida url =
     Json [[''NAME'', ''state'', ''county''],
           [''Hillsborough County, Florida'', ''12'', ''057''],
           [''Orange County, Florida'', ''12'', ''095'']]"

text \<open>A directory that has a page for Orlando only.\<close>

definition ex_pages :: "string \<Rightarrow> page" where
  "ex_pages url =
     (if url = ''https://www.city-data.com/city/Orlando-Florida.html''
      then Page (Some [Some ''Home'', Some ''Florida'', Some ''Orange County'', None])
      else Page_Status_Error 404)"

text \<open>Employment of one location in two years: 100 to 105 employed, rate 5.0 to 4.0.\<close>

definition ex_employment :: "employment_record list" where
  "ex_employment =
     [\<lparr>City = ''Orlando'', State = ''FL'', County = ''Orange County'', Year = 2020,
       unemployment_rate = Some 4, employed = Some 105\<rparr>,
      \<lparr>City = ''Orlando'', State = ''FL'', County = ''Orange County'', Year = 2019,
       unemployment_rate = Some 5, employed = Some 100\<rparr>]"

text \<open>Population of one location: 100 in 2010, nothing for 2011, 200 in 2012.\<close>

definition ex_population :: "population_record list" where
  "ex_population =
     [\<lparr>City = ''Orlando'', State = ''FL'', County = ''Orange County'', Year = 2012,
       Population = Some 200\<rparr>,
      \<lparr>City = ''Orlando'', State = ''FL'', County = ''Orange County'', Year = 2011,
       Population = None\<rparr>,
      \<lparr>City = ''Orlando'', State = ''FL'', County = ''Orange County'', Year = 2010,
       Population = Some 100\<rparr>]"

text \<open>Two locations with the same populations, Tampa listed before Orlando.\<close>

definition ex_tie :: "population_record list" where
  "ex_tie =
     [\<lparr>City = ''Tampa'', State = ''FL'', County = ''Hillsborough County'', Year = 2010,
       Population = Some 100\<rparr>,
      \<lparr>City = ''Orlando'', State = ''FL'', County = ''Orange County'', Year = 2010,
       Population = Some 100\<rparr>,
      \<lparr>City = ''Tampa'', State = ''FL'', County = ''Hillsborough County'', Year = 2012,
       Population = Some 200\<rparr>,
      \<lparr>City = ''Orlando'', State = ''FL'', County = ''Orange County'', Year = 2012,
       Population = Some 200\<rparr>]"

text \<open>The target areas of Orlando and Tampa, and a census that answers for 2009 only.\<close>

definition ex_areas :: "(string \<times> target_area) list" where
  "ex_areas =
     [(''orlando_fl'',
       \<lparr>state = ''FL'', county = ''Orange County'', fips_state = ''12'', fips_county = ''095'',
        city = ''Orlando''\<rparr>),
      (''tampa_fl'',
       \<lparr>state = ''FL'', county = ''Hillsborough County'', fips_state = ''12'',
        fips_county = ''057'', city = ''Tampa''\<rparr>)]"

definition ex_acs5 :: "int \<Rightarrow> string \<Rightarrow> string \<Rightarrow> (int \<times> real) option" where
  "ex_acs5 year fs fc = (if year = 2009 \<and> fc = ''095'' then Some (1100000, 33) else None)"

text \<open>
  A crime table of the years 2019 and 2020 with two rows labelled Murders, the marker
  row of the raw index, and a footer with the index of 2019.
\<close>

definition ex_crtable :: crtable where
  "ex_crtable =
     \<lparr>thead = Some (Some [''Type'', ''2019'', ''2020'']),
      tbody = Some
        [[\<lparr>td_b = Some ''Murders'', td_text = ''Murders(per 100,000)''\<rparr>,
          \<lparr>td_b = None, td_text = ''5 (2.1)''\<rparr>, \<lparr>td_b = None, td_text = [] \<rparr>],
         [\<lparr>td_b = Some ''Murders'', td_text = ''Murders(per 100,000)''\<rparr>,
          \<lparr>td_b = None, td_text = ''1,234 (56.7)''\<rparr>, \<lparr>td_b = None, td_text = ''7''\<rparr>],
         [\<lparr>td_b = Some ''City-Data.com crime index'', td_text = ''City-Data.com crime index''\<rparr>,
          \<lparr>td_b = None, td_text = ''345.1''\<rparr>, \<lparr>td_b = None, td_text = ''301.2''\<rparr>]],
      tfoot = Some (Some
        [\<lparr>td_b = None, td_text = ''City-Data.com crime index''\<rparr>,
         \<lparr>td_b = None, td_text = ''345.1''\<rparr>, \<lparr>td_b = None, td_text = [] \<rparr>])\<rparr>"

text \<open>
  Crime rows with the year columns \<^verbatim>\<open>2019_count\<close> and \<^verbatim>\<open>2020_count\<close>, and the
  counties with their populations.
\<close>

definition ex_crime_one_city :: crime_frame where
  "ex_crime_one_city =
     \<lparr>crime_columns = [''2019_count'', ''2020_count''],
      crime_rows =
        [(''Orlando, FL'', ''Murders'', [Some ''4'', Some ''3'']),
         (''Orlando, FL'', ''Crime Index'', [Some ''400.5'', Some ''390.1''])]\<rparr>"

definition ex_county_population :: "(string \<times> int option) list" where
  "ex_county_population = [(''Orange County'', Some 1400000), (''Hillsborough County'', Some 1500000)]"

text \<open>
  A labour API that answers for 2019 with the rate and the employment of Orange
  County, and whose request for any other year fails.
\<close>

definition ex_bls :: "int \<Rightarrow> string list \<Rightarrow> bls_result" where
  "ex_bls year batch_series =
     (if year = 2019
      then Bls_Series [(''LAUCN120950000000003'', Some 3.1), (''LAUCN120950000000005'', Some 700000)]
      else Bls_Raised)"

text \<open>
  Two sorts of positions by rising key: one keeps equal keys in their order, the other
  puts the later of two equal keys first. Both sort.
\<close>

definition stable_argsort :: "real list \<Rightarrow> nat list" where
  "stable_argsort keys = sort_key (\<lambda>i. keys ! i) [0..<length keys]"

definition later_first_argsort :: "real list \<Rightarrow> nat list" where
  "later_first_argsort keys = sort_key (\<lambda>i. keys ! i) (rev [0..<length keys])"

text \<open>
  A crime table of the years 2019 and 2020 with a row labelled Murders and a footer
  with the index of both years, and the table the parser makes of it for Orlando.
\<close>

definition ex_crtable_index :: crtable where
  "ex_crtable_index =
     \<lparr>thead = Some (Some [''Type'', ''2019'', ''2020'']),
      tbody = Some
        [[\<lparr>td_b = Some ''Murders'', td_text = ''Murders(per 100,000)''\<rparr>,
          \<lparr>td_b = None, td_text = ''5 (2.1)''\<rparr>, \<lparr>td_b = None, td_text = ''7 (2.9)''\<rparr>]],
      tfoot = Some (Some
        [\<lparr>td_b = None, td_text = ''City-Data.com crime index''\<rparr>,
         \<lparr>td_b = None, td_text = ''345.1''\<rparr>, \<lparr>td_b = None, td_text = ''301.2''\<rparr>])\<rparr>"

definition ex_parsed_crime :: crime_frame where
  "ex_parsed_crime =
     \<lparr>crime_columns = [''2019'', ''2020''],
      crime_rows =
        [(''Orlando, FL'', ''Murders'', [Some ''5 (2.1)'', Some ''7 (2.9)'']),
         (''Orlando, FL'', ''Crime Index'', [Some ''345.1'', Some ''301.2''])]\<rparr>"

text \<open>
  Populations of two locations in 2010 and 2012: Orlando from 100 to 200, Tampa from
  0 to 50.
\<close>

definition ex_zero_start :: "population_record list" where
  "ex_zero_start =
     [\<lparr>City = ''Orlando'', State = ''FL'', County = ''Orange County'', Year = 2012,
       Population = Some 200\<rparr>,
      \<lparr>City = ''Tampa'', State = ''FL'', County = ''Hillsborough County'', Year = 2012,
       Population = Some 50\<rparr>,
      \<lparr>City = ''Orlando'', State = ''FL'', County = ''Orange County'', Year = 2010,
       Population = Some 100\<rparr>,
      \<lparr>City = ''Tampa'', State = ''FL'', County = ''Hillsborough County'', Year = 2010,
       Population = Some 0\<rparr>]"

section \<open>Properties of the county FIPS lookup\<close>





text \<open>
  The loop returns at the first candidate that matches in either way: a candidate that
  matches exactly further down the list is never reached.
\<close>

lemma match_county_first_match:
  assumes "name # rest = c" and "2 < length c"
    and "str_in (lower q) (lower (clean_candidate name))
         \<or> str_in (lower (clean_candidate name)) (lower q)"
  shows "match_county q (c # cs) = Inr (c ! 2)"
  using assms by (auto simp: index_def Let_def)








text \<open>
  C3. The code at the county list of Minnesota, asked for "Lake of the Woods County":
  "Lake County" comes first in the list and its cleaned name is contained in the
  query, so its code 075 is returned, though the list holds the county itself, an
  exact match, with code 077.
\<close>

theorem get_county_fips_code_substring_before_exact:
  "get_county_fips_code ex_minnesota ''27'' ''Lake of the Woods County'' census_key = Inr ''075''
   \<and> lower (strip (replace '' County'' [] ''Lake of the Woods County''))
       = lower (clean_candidate ''Lake of the Woods County, Minnesota'')"
  by (simp add: get_county_fips_code_def county_fips_try_def ex_minnesota_def index_def
      clean_candidate_def strip_def is_space_def before_comma_def lower_def lower_char_def)
section \<open>Properties of the resolution of the input rows\<close>

lemma convert_rows_skip:
  "map_of state_mapping st = None \<Longrightarrow>
   convert_rows pg api (before @ (c, st) # after) acc = convert_rows pg api (before @ after) acc"
proof (induction before arbitrary: acc)
  case Nil
  then show ?case by (cases acc) simp
next
  case (Cons row before)
  obtain c' st' where row: "row = (c', st')" by (cases row)
  obtain ta cm where acc: "acc = (ta, cm)" by (cases acc)
  show ?case
    using Cons by (simp add: row acc Let_def split: option.split sum.split)
qed

text \<open>
  C5 (as amended). An input row whose state code is not a key of the lookup table is
  passed over and the remaining rows are resolved: the result is the result of the
  input without that row. The run fails for it ("No valid cities could be processed")
  only when no row at all was resolved, as when the row stands alone.
\<close>

theorem unknown_state_row_is_skipped:
  assumes "map_of state_mapping st = None"
  shows "convert_input_to_target_areas pg api (before @ (c, st) # after)
           = convert_input_to_target_areas pg api (before @ after)
         \<and> convert_input_to_target_areas pg api [(c, st)] = Inl No_valid_cities"
  using assms by (simp add: convert_input_to_target_areas_def convert_rows_skip)

theorem unknown_state_row_is_skipped_witness:
  "convert_input_to_target_areas ex_pages ex_florida [(''Gotham'', ''ZZ''), (''Orlando'', ''FL'')]
     = convert_input_to_target_areas ex_pages ex_florida [(''Orlando'', ''FL'')]
   \<and> convert_input_to_target_areas ex_pages ex_florida [(''Gotham'', ''ZZ'')] = Inl No_valid_cities"
proof -
  have "map_of state_mapping ''ZZ'' = None"
    by (simp add: state_mapping_def)
  from unknown_state_row_is_skipped
    [where st = "''ZZ''" and before = "[]" and after = "[(''Orlando'', ''FL'')]"
       and c = "''Gotham''" and pg = ex_pages and api = ex_florida, OF this]
  show ?thesis by simp
qed

text \<open>
  The claim as the specification states it fails: a row with the unknown state code ZZ
  before the row of Orlando, Florida does not stop the run, which resolves Orlando.
\<close>

theorem unknown_state_row_counterexample:
  "map_of state_mapping ''ZZ'' = None
   \<and> convert_input_to_target_areas ex_pages ex_florida [(''Gotham'', ''ZZ''), (''Orlando'', ''FL'')]
       = Inr ([(''orlando_fl'',
                \<lparr>state = ''FL'', county = ''Orange County'', fips_state = ''12'',
                 fips_county = ''095'', city = ''Orlando''\<rparr>)],
              [(''Orange County'', ''Orlando'')])"
  by (simp add: convert_input_to_target_areas_def state_mapping_def state_fips_def
      city_url_def area_id_of_def ex_pages_def scrape_county_def
      get_county_fips_code_def county_fips_try_def ex_florida_def index_def
      clean_candidate_def strip_def is_space_def before_comma_def lower_def lower_char_def)

section \<open>Properties of the reconciliation without optional inputs\<close>

lemma columns_demographic_merge_no_employment:
  "columns (demographic_merge population_df age_df None)
   \<in> {[], [''County'', ''Population''], [''County'', ''Median Age''],
       [''County'', ''Population'', ''Median Age'']}"
  by (simp add: demographic_merge_def Let_def population_frame_def age_frame_def
      merge_outer_def df_empty_def)

lemma columns_demographic_merge:
  "set (columns (demographic_merge population_df age_df employment_df))
   \<subseteq> {''County'', ''Population'', ''Median Age'', ''unemployment_rate'', ''employed''}"
  by (auto simp: demographic_merge_def Let_def population_frame_def age_frame_def
      employment_frame_def merge_outer_def df_empty_def split: option.splits if_splits)

lemma cell_of_cases: "cell_of cs vs col = None \<or> cell_of cs vs col \<in> set vs"
  by (induction cs vs col rule: cell_of.induct) auto

lemma report_without_text:
  assumes "\<forall>row\<in>set (rows df). \<forall>v\<in>set (snd row). \<not> is_text v"
  shows "create_summary_report df = Inr ()"
proof -
  have "\<not> is_text (cell_of (tl (columns df)) (snd row) col)" if "row \<in> set (rows df)" for row col
    using cell_of_cases [of "tl (columns df)" "snd row" col] assms that
    by (auto simp: is_text_def)
  then show ?thesis
    by (auto simp: create_summary_report_def list_ex_iff)
qed

lemma number_is_not_text [simp]:
  "\<not> is_text (map_option Int_value p)" "\<not> is_text (map_option Float_value q)"
  "\<not> is_text None"
  by (cases p; cases q; simp add: is_text_def)+

lemma merge_outer_without_text:
  assumes "\<forall>row\<in>set (rows left). \<forall>v\<in>set (snd row). \<not> is_text v"
    and "\<forall>row\<in>set (rows right). \<forall>v\<in>set (snd row). \<not> is_text v"
  shows "\<forall>row\<in>set (rows (merge_outer left right)). \<forall>v\<in>set (snd row). \<not> is_text v"
  using assms
  by (auto simp: merge_outer_def Let_def split: if_splits)

lemma demographic_merge_without_text:
  "\<forall>row\<in>set (rows (demographic_merge population_df age_df employment_df)).
     \<forall>v\<in>set (snd row). \<not> is_text v"
proof -
  have p: "\<forall>row\<in>set (rows (population_frame population_df)). \<forall>v\<in>set (snd row). \<not> is_text v"
    by (auto simp: population_frame_def)
  have a: "\<forall>row\<in>set (rows (age_frame age_df)). \<forall>v\<in>set (snd row). \<not> is_text v"
    by (auto simp: age_frame_def)
  have e: "\<forall>row\<in>set (rows (employment_frame employment)). \<forall>v\<in>set (snd row). \<not> is_text v"
    for employment
    by (auto simp: employment_frame_def)
  have n: "\<forall>row\<in>set (rows \<lparr>columns = [], rows = []\<rparr>). \<forall>v\<in>set (snd row). \<not> is_text v"
    by simp
  define first where
    "first = (if population_df \<noteq> [] then population_frame population_df
              else \<lparr>columns = [], rows = []\<rparr>)"
  define second where
    "second = (if age_df \<noteq> [] then
                 (if df_empty first then age_frame age_df
                  else merge_outer first (age_frame age_df))
               else first)"
  have f: "\<forall>row\<in>set (rows first). \<forall>v\<in>set (snd row). \<not> is_text v"
    unfolding first_def using p n by (cases "population_df \<noteq> []") simp_all
  have s: "\<forall>row\<in>set (rows second). \<forall>v\<in>set (snd row). \<not> is_text v"
    unfolding second_def using f a merge_outer_without_text [OF f a]
    by (cases "age_df \<noteq> []"; cases "df_empty first") simp_all
  have "demographic_merge population_df age_df employment_df
        = (case employment_df of
             None \<Rightarrow> second
           | Some employment \<Rightarrow>
               (if employment \<noteq> [] then
                  (if df_empty second then employment_frame employment
                   else merge_outer second (employment_frame employment))
                else second))"
    unfolding demographic_merge_def first_def second_def Let_def by (rule refl)
  also have "\<forall>row\<in>set (rows \<dots>). \<forall>v\<in>set (snd row). \<not> is_text v"
  proof (cases employment_df)
    case None
    with s show ?thesis by simp
  next
    case (Some employment)
    with s e [of employment] merge_outer_without_text [OF s e [of employment]]
    show ?thesis
      by (cases "employment \<noteq> []"; cases "df_empty second") simp_all
  qed
  finally show ?thesis .
qed

lemma report_of_demographic_merge:
  "create_summary_report (demographic_merge population_df age_df employment_df) = Inr ()"
  by (rule report_without_text) (rule demographic_merge_without_text)
lemma analyze_without_crime:
  "analyze_and_visualize_data population_df age_df employment_df None target_areas
   = Inr (demographic_merge population_df age_df employment_df)"
  by (simp add: analyze_and_visualize_data_def merged_demographic_data_def
      report_of_demographic_merge)

lemma analyze_returns_or_raises:
  "analyze_and_visualize_data population_df age_df employment_df crime_df target_areas
   \<in> {Inl ValueError,
       Inr (merged_demographic_data population_df age_df employment_df crime_df target_areas)}"
  by (simp add: analyze_and_visualize_data_def create_summary_report_def Let_def)

text \<open>
  C9. With a population table and an age table that have rows, and neither employment
  nor crime data, the reconcile operation returns a table with exactly the columns
  County, Population and Median Age. An optional input that is absent adds no column:
  without crime data a table is returned and it has no Crime_Index column; without
  employment data the merged table has no unemployment_rate and no employed column,
  and the operation returns that table unless writing the report of crime data
  raises. A table is returned whatever the other inputs hold: with nothing at all it
  is the table without columns or rows.
\<close>

theorem reconcile_without_optional_inputs:
  "(population_df \<noteq> [] \<and> age_df \<noteq> [] \<longrightarrow>
      (\<exists>df. analyze_and_visualize_data population_df age_df None None target_areas = Inr df
            \<and> columns df = [''County'', ''Population'', ''Median Age'']))
   \<and> (\<exists>df. analyze_and_visualize_data population_df age_df employment_df None target_areas
             = Inr df
           \<and> ''Crime_Index'' \<notin> set (columns df))
   \<and> ''unemployment_rate''
        \<notin> set (columns (merged_demographic_data population_df age_df None crime_df
                           target_areas))
   \<and> ''employed''
        \<notin> set (columns (merged_demographic_data population_df age_df None crime_df
                           target_areas))
   \<and> analyze_and_visualize_data population_df age_df None crime_df target_areas
        \<in> {Inl ValueError,
            Inr (merged_demographic_data population_df age_df None crime_df target_areas)}
   \<and> analyze_and_visualize_data [] [] None None target_areas
        = Inr \<lparr>columns = [], rows = []\<rparr>"
proof (intro conjI)
  show "population_df \<noteq> [] \<and> age_df \<noteq> [] \<longrightarrow>
      (\<exists>df. analyze_and_visualize_data population_df age_df None None target_areas = Inr df
            \<and> columns df = [''County'', ''Population'', ''Median Age''])"
    by (simp add: analyze_without_crime demographic_merge_def Let_def
        population_frame_def age_frame_def merge_outer_def df_empty_def)
next
  show "\<exists>df. analyze_and_visualize_data population_df age_df employment_df None target_areas
             = Inr df
           \<and> ''Crime_Index'' \<notin> set (columns df)"
    using columns_demographic_merge [of population_df age_df employment_df]
    by (auto simp: analyze_without_crime)
next
  have cases: "columns (merged_demographic_data population_df age_df None crime_df target_areas)
      \<in> {columns (demographic_merge population_df age_df None),
          columns (demographic_merge population_df age_df None) @ [''Crime_Index''],
          [''County'', ''Crime_Index'']}"
    by (auto simp: merged_demographic_data_def Let_def merge_left_def crime_index_frame_def
        split: option.splits)
  show "''unemployment_rate''
        \<notin> set (columns (merged_demographic_data population_df age_df None crime_df
                           target_areas))"
    using cases columns_demographic_merge_no_employment [of population_df age_df] by auto
  show "''employed''
        \<notin> set (columns (merged_demographic_data population_df age_df None crime_df
                           target_areas))"
    using cases columns_demographic_merge_no_employment [of population_df age_df] by auto
next
  show "analyze_and_visualize_data population_df age_df None crime_df target_areas
        \<in> {Inl ValueError,
            Inr (merged_demographic_data population_df age_df None crime_df target_areas)}"
    by (rule analyze_returns_or_raises)
next
  show "analyze_and_visualize_data [] [] None None target_areas
        = Inr \<lparr>columns = [], rows = []\<rparr>"
    by (simp add: analyze_without_crime demographic_merge_def)
qed

theorem reconcile_without_optional_inputs_witness:
  "\<exists>df. analyze_and_visualize_data [(''Orange County'', Some 1400000)]
              [(''Orange County'', Some 35)] None None None = Inr df
        \<and> columns df = [''County'', ''Population'', ''Median Age'']"
proof -
  have "[(''Orange County'', Some (1400000::int))] \<noteq> []
        \<and> [(''Orange County'', Some (35::real))] \<noteq> []"
    by simp
  with reconcile_without_optional_inputs
    [where population_df = "[(''Orange County'', Some 1400000)]"
       and age_df = "[(''Orange County'', Some 35)]" and target_areas = None]
  show ?thesis by blast
qed

section \<open>Properties of the trend analysis\<close>

lemma sorted_hd_le_last:
  "sorted (map f xs) \<Longrightarrow> xs \<noteq> [] \<Longrightarrow> f (hd xs) \<le> f (last xs)"
  by (induction xs) (auto split: if_splits)

lemma sorted_observations:
  "sorted (map Year (filter P (sort_key Year location_data)))"
  by (simp add: sorted_filter)

lemma analysis_rows_of_groups:
  "a \<in> set (List.map_filter (\<lambda>(k, location_data). entry k location_data) (groupby df))
   \<Longrightarrow> \<exists>k. entry k (filter (\<lambda>r. location_key r = k) df) = Some a"
proof -
  assume "a \<in> set (List.map_filter (\<lambda>(k, location_data). entry k location_data) (groupby df))"
  then obtain g where "g \<in> set (groupby df)" and "entry (fst g) (snd g) = Some a"
    by (auto simp: List.map_filter_def)
  moreover from this have "snd g = filter (\<lambda>r. location_key r = fst g) df"
    by (auto simp: groupby_def)
  ultimately have "entry (fst g) (filter (\<lambda>r. location_key r = fst g) df) = Some a"
    by simp
  then show ?thesis ..
qed

lemma employment_analysis_rows:
  "a \<in> set (employment_analysis employment_df)
   \<Longrightarrow> \<exists>k. employment_entry k (filter (\<lambda>r. location_key r = k) employment_df) = Some a"
  using analysis_rows_of_groups [of a employment_entry employment_df]
  by (simp add: employment_analysis_def split: if_splits)

lemma growth_analysis_rows:
  "g \<in> set (population_growth_analysis population_df)
   \<Longrightarrow> \<exists>k. growth_entry k (filter (\<lambda>r. location_key r = k) population_df) = Some g"
  using analysis_rows_of_groups [of g growth_entry population_df]
  by (simp add: population_growth_analysis_def split: if_splits)

lemma composite_score_of_entry:
  "employment_entry k location_data = Some a
   \<Longrightarrow> Composite_Score a
         = map_option (\<lambda>cagr. cagr - 2 * (End_Unemployment_Rate a - Start_Unemployment_Rate a))
             (Employment_CAGR_Pct a)"
  by (auto simp: employment_entry_def Let_def map_option_case mult.commute
      split: option.splits if_splits)

lemma cagr_of_entry:
  "growth_entry k location_data = Some g
   \<Longrightarrow> 0 < Start_Population g \<and> 0 < Years_Analyzed g
       \<and> (0 \<le> End_Population g \<longrightarrow>
            CAGR_Pct g
              = Some (((real_of_int (End_Population g) / real_of_int (Start_Population g))
                         powr (1 / real_of_int (Years_Analyzed g)) - 1) * 100))"
  by (auto simp: growth_entry_def Let_def float_root_def split: if_splits)

lemma two_years_distinct:
  assumes "x \<in> set xs" "y \<in> set xs" "f x \<noteq> f y"
  shows "1 < length (remdups (map f xs))"
proof -
  have "{f x, f y} \<subseteq> set (map f xs)" using assms by auto
  then have "card {f x, f y} \<le> card (set (map f xs))"
    by (intro card_mono) auto
  with assms(3) show ?thesis
    by (simp add: length_remdups_card_conv)
qed

lemma filter_map_filter_key:
  assumes "\<And>x a. h x = Some a \<Longrightarrow> key a = x" and "distinct xs"
  shows "filter (\<lambda>a. key a = k) (List.map_filter h xs)
         = (if k \<in> set xs then (case h k of Some a \<Rightarrow> [a] | None \<Rightarrow> []) else [])"
  using assms(2)
proof (induction xs)
  case Nil
  then show ?case by (simp add: List.map_filter_simps)
next
  case (Cons x xs)
  then show ?case
    using assms(1) [of x]
    by (cases "h x") (auto simp: List.map_filter_simps split: option.splits)
qed

text \<open>The rows of a location in the analysis: the row of its group, if it has one.\<close>

lemma analysis_of_location:
  assumes "\<And>x ld a. entry x ld = Some a \<Longrightarrow> key a = x"
  shows "filter (\<lambda>a. key a = k)
           (List.map_filter (\<lambda>(k, location_data). entry k location_data) (groupby df))
         = (if k \<in> location_key ` set df
            then (case entry k (filter (\<lambda>r. location_key r = k) df) of
                    Some a \<Rightarrow> [a] | None \<Rightarrow> [])
            else [])"
proof -
  let ?keys = "sort (remdups (map location_key df))"
  let ?h = "\<lambda>x. entry x (filter (\<lambda>r. location_key r = x) df)"
  have "List.map_filter (\<lambda>(k, location_data). entry k location_data) (groupby df)
        = List.map_filter ?h ?keys"
    by (simp add: groupby_def List.map_filter_def filter_map comp_def)
  moreover have "distinct ?keys" by simp
  moreover have "\<And>x a. ?h x = Some a \<Longrightarrow> key a = x" using assms by blast
  ultimately show ?thesis
    using filter_map_filter_key [of ?h key ?keys k] by simp
qed

lemma growth_entry_key: "growth_entry k location_data = Some g \<Longrightarrow> location_key g = k"
  by (auto simp: growth_entry_def Let_def location_key_def split: if_splits)

lemma employment_entry_key:
  "employment_entry k location_data = Some a \<Longrightarrow> location_key a = k"
  by (auto simp: employment_entry_def Let_def location_key_def split: if_splits)

lemma growth_analysis_of_location:
  "filter (\<lambda>g. location_key g = k) (population_growth_analysis population_df)
   = (if 1 < length (remdups (map Year population_df)) \<and> k \<in> location_key ` set population_df
      then (case growth_entry k (filter (\<lambda>r. location_key r = k) population_df) of
              Some g \<Rightarrow> [g] | None \<Rightarrow> [])
      else [])"
  using analysis_of_location [of growth_entry location_key k population_df]
  by (auto simp: population_growth_analysis_def growth_entry_key)

lemma employment_analysis_of_location:
  "filter (\<lambda>a. location_key a = k) (employment_analysis employment_df)
   = (if 1 < length (remdups (map Year employment_df)) \<and> k \<in> location_key ` set employment_df
      then (case employment_entry k (filter (\<lambda>r. location_key r = k) employment_df) of
              Some a \<Rightarrow> [a] | None \<Rightarrow> [])
      else [])"
  using analysis_of_location [of employment_entry location_key k employment_df]
  by (auto simp: employment_analysis_def employment_entry_key)

text \<open>
  Two observations of a location in different years: the table has more than one
  year, and the location is one of its groups.
\<close>

lemma observations_of_table:
  assumes "obs = filter P (sort_key Year (filter (\<lambda>r. location_key r = k) df))"
    and "obs \<noteq> []"
  shows "hd obs \<in> set df" "last obs \<in> set df" "k \<in> location_key ` set df"
proof -
  have sub: "set obs \<subseteq> {r \<in> set df. location_key r = k}"
    unfolding assms(1) by auto
  from assms(2) have "hd obs \<in> set obs" "last obs \<in> set obs" by simp_all
  with sub show "hd obs \<in> set df" "last obs \<in> set df" "k \<in> location_key ` set df"
    by auto
qed

lemma employment_cagr_of_entry:
  "employment_entry k location_data = Some a
   \<Longrightarrow> Employment_CAGR_Pct a
         = map_option (\<lambda>p. (p - 1) * 100)
             (float_root (End_Employed a / Start_Employed a) (Years_Analyzed a))"
  by (auto simp: employment_entry_def Let_def split: if_splits)

text \<open>
  C6. A location of the employment table whose observations (its records with both
  values, sorted by year) are at least two, with a positive employment in the first
  of them and different years in the first and the last, has exactly one row in the
  employment analysis. The row holds the employment and the unemployment rate of the
  first and of the last observation and the years between them; its employment CAGR
  is ((end / start) ^ (1 / years) - 1) * 100 of these, and its composite score is
  that CAGR minus twice the difference of the last and the first unemployment rate.
  With a CAGR of 5 and a rate that changed by -1 the score is 7. Every row of the
  employment analysis has its composite score by this formula.
\<close>

theorem composite_score_formula:
  fixes employment_df :: "employment_record list"
  assumes "obs = filter (\<lambda>r. employed r \<noteq> None \<and> unemployment_rate r \<noteq> None)
                   (sort_key Year (filter (\<lambda>r. location_key r = k) employment_df))"
    and "2 \<le> length obs"
    and "0 < the (employed (hd obs))"
    and "Year (hd obs) \<noteq> Year (last obs)"
  shows "(\<exists>a. filter (\<lambda>a. location_key a = k) (employment_analysis employment_df) = [a]
           \<and> Start_Employed a = the (employed (hd obs))
           \<and> End_Employed a = the (employed (last obs))
           \<and> Years_Analyzed a = Year (last obs) - Year (hd obs)
           \<and> Start_Unemployment_Rate a = the (unemployment_rate (hd obs))
           \<and> End_Unemployment_Rate a = the (unemployment_rate (last obs))
           \<and> Employment_CAGR_Pct a
               = map_option (\<lambda>p. (p - 1) * 100)
                   (float_root (End_Employed a / Start_Employed a) (Years_Analyzed a))
           \<and> (0 \<le> End_Employed a \<longrightarrow>
                Employment_CAGR_Pct a
                  = Some (((End_Employed a / Start_Employed a)
                             powr (1 / real_of_int (Years_Analyzed a)) - 1) * 100))
           \<and> Composite_Score a
               = map_option
                   (\<lambda>cagr. cagr - 2 * (End_Unemployment_Rate a - Start_Unemployment_Rate a))
                   (Employment_CAGR_Pct a)
           \<and> (Employment_CAGR_Pct a = Some 5
                \<and> End_Unemployment_Rate a - Start_Unemployment_Rate a = - 1
                \<longrightarrow> Composite_Score a = Some 7))
     \<and> (\<forall>a \<in> set (employment_analysis employment_df).
          Employment_CAGR_Pct a
            = map_option (\<lambda>p. (p - 1) * 100)
                (float_root (End_Employed a / Start_Employed a) (Years_Analyzed a))
          \<and> Composite_Score a
            = map_option
                (\<lambda>cagr. cagr - 2 * (End_Unemployment_Rate a - Start_Unemployment_Rate a))
                (Employment_CAGR_Pct a))"
proof -
  let ?location_data = "filter (\<lambda>r. location_key r = k) employment_df"
  have every: "\<forall>a \<in> set (employment_analysis employment_df).
          Employment_CAGR_Pct a
            = map_option (\<lambda>p. (p - 1) * 100)
                (float_root (End_Employed a / Start_Employed a) (Years_Analyzed a))
          \<and> Composite_Score a
            = map_option
                (\<lambda>cagr. cagr - 2 * (End_Unemployment_Rate a - Start_Unemployment_Rate a))
                (Employment_CAGR_Pct a)"
    using employment_analysis_rows composite_score_of_entry employment_cagr_of_entry
    by blast
  have ne: "obs \<noteq> []" using assms(2) by auto
  have "sorted (map Year obs)"
    unfolding assms(1) by (rule sorted_observations)
  then have "Year (hd obs) \<le> Year (last obs)"
    using ne by (rule sorted_hd_le_last)
  with assms(4) have "0 < Year (last obs) - Year (hd obs)" by simp
  then have "\<exists>a. employment_entry k ?location_data = Some a
           \<and> Start_Employed a = the (employed (hd obs))
           \<and> End_Employed a = the (employed (last obs))
           \<and> Years_Analyzed a = Year (last obs) - Year (hd obs)
           \<and> Start_Unemployment_Rate a = the (unemployment_rate (hd obs))
           \<and> End_Unemployment_Rate a = the (unemployment_rate (last obs))
           \<and> Employment_CAGR_Pct a
               = map_option (\<lambda>p. (p - 1) * 100)
                   (float_root (End_Employed a / Start_Employed a) (Years_Analyzed a))"
    using assms(2,3) unfolding assms(1)
    by (simp add: employment_entry_def Let_def)
  then obtain a where a: "employment_entry k ?location_data = Some a"
    and fields: "Start_Employed a = the (employed (hd obs))"
      "End_Employed a = the (employed (last obs))"
      "Years_Analyzed a = Year (last obs) - Year (hd obs)"
      "Start_Unemployment_Rate a = the (unemployment_rate (hd obs))"
      "End_Unemployment_Rate a = the (unemployment_rate (last obs))"
    and cagr: "Employment_CAGR_Pct a
               = map_option (\<lambda>p. (p - 1) * 100)
                   (float_root (End_Employed a / Start_Employed a) (Years_Analyzed a))"
    by blast
  have score: "Composite_Score a
               = map_option
                   (\<lambda>cagr. cagr - 2 * (End_Unemployment_Rate a - Start_Unemployment_Rate a))
                   (Employment_CAGR_Pct a)"
    using a by (rule composite_score_of_entry)
  have example: "Employment_CAGR_Pct a = Some 5
                \<and> End_Unemployment_Rate a - Start_Unemployment_Rate a = - 1
                \<longrightarrow> Composite_Score a = Some 7"
    using score by auto
  have "0 < Start_Employed a" using fields(1) assms(3) by simp
  then have root: "0 \<le> End_Employed a \<longrightarrow>
                Employment_CAGR_Pct a
                  = Some (((End_Employed a / Start_Employed a)
                             powr (1 / real_of_int (Years_Analyzed a)) - 1) * 100)"
    unfolding cagr by (simp add: float_root_def)
  have "1 < length (remdups (map Year employment_df))"
    using two_years_distinct [of "hd obs" employment_df "last obs" Year]
      observations_of_table(1,2) [OF assms(1) ne] assms(4)
    by simp
  moreover have "k \<in> location_key ` set employment_df"
    using observations_of_table(3) [OF assms(1) ne] .
  ultimately have "filter (\<lambda>a. location_key a = k) (employment_analysis employment_df) = [a]"
    using a by (simp add: employment_analysis_of_location)
  with fields cagr root score example every show ?thesis by blast
qed

theorem composite_score_formula_witness:
  "\<exists>a \<in> set (employment_analysis ex_employment).
     location_key a = (''Orlando'', ''FL'', ''Orange County'')
     \<and> Employment_CAGR_Pct a = Some 5
     \<and> End_Unemployment_Rate a - Start_Unemployment_Rate a = - 1
     \<and> Composite_Score a = Some 7"
proof -
  let ?k = "(''Orlando'', ''FL'', ''Orange County'')"
  let ?obs = "filter (\<lambda>r. employed r \<noteq> None \<and> unemployment_rate r \<noteq> None)
                (sort_key Year (filter (\<lambda>r. location_key r = ?k) ex_employment))"
  have obs: "?obs = rev ex_employment"
    by (simp add: ex_employment_def location_key_def)
  have h: "2 \<le> length ?obs" "0 < the (employed (hd ?obs))" "Year (hd ?obs) \<noteq> Year (last ?obs)"
    unfolding obs by (simp_all add: ex_employment_def)
  from composite_score_formula [where employment_df = ex_employment and k = ?k, OF refl h]
  obtain a where a: "filter (\<lambda>a. location_key a = ?k) (employment_analysis ex_employment) = [a]"
    and s: "Start_Employed a = the (employed (hd ?obs))"
      "End_Employed a = the (employed (last ?obs))"
      "Years_Analyzed a = Year (last ?obs) - Year (hd ?obs)"
      "Start_Unemployment_Rate a = the (unemployment_rate (hd ?obs))"
      "End_Unemployment_Rate a = the (unemployment_rate (last ?obs))"
    and r: "0 \<le> End_Employed a \<longrightarrow>
                Employment_CAGR_Pct a
                  = Some (((End_Employed a / Start_Employed a)
                             powr (1 / real_of_int (Years_Analyzed a)) - 1) * 100)"
    and c: "Employment_CAGR_Pct a = Some 5
            \<and> End_Unemployment_Rate a - Start_Unemployment_Rate a = - 1
            \<longrightarrow> Composite_Score a = Some 7"
    by blast
  have v: "Start_Employed a = 100" "End_Employed a = 105" "Years_Analyzed a = 1"
    "Start_Unemployment_Rate a = 5" "End_Unemployment_Rate a = 4"
    unfolding s obs by (simp_all add: ex_employment_def)
  have cagr: "Employment_CAGR_Pct a = Some 5"
    using r unfolding v by simp
  have change: "End_Unemployment_Rate a - Start_Unemployment_Rate a = - 1"
    unfolding v by simp
  have "a \<in> set (filter (\<lambda>a. location_key a = ?k) (employment_analysis ex_employment))"
    unfolding a by simp
  then have "a \<in> set (employment_analysis ex_employment)" "location_key a = ?k"
    by simp_all
  with cagr change c show ?thesis by blast
qed

lemma growth_cagr_of_entry:
  "growth_entry k location_data = Some g
   \<Longrightarrow> CAGR_Pct g
         = map_option (\<lambda>p. (p - 1) * 100)
             (float_root (real_of_int (End_Population g) / real_of_int (Start_Population g))
                (Years_Analyzed g))"
  by (auto simp: growth_entry_def Let_def split: if_splits)

text \<open>The growth analysis of the example: one row, of Orlando.\<close>

lemma ex_growth_analysis:
  "population_growth_analysis ex_population
   = [\<lparr>City = ''Orlando'', State = ''FL'', County = ''Orange County'', Years_Analyzed = 2,
       Start_Population = 100, End_Population = 200, Total_Growth_Pct = 100,
       CAGR_Pct = Some ((2 powr (1 / 2) - 1) * 100)\<rparr>]"
  by (simp add: population_growth_analysis_def ex_population_def groupby_def location_key_def
      List.map_filter_simps growth_entry_def Let_def float_root_def)
text \<open>
  C7. The observations of a location are its records with a population, sorted by
  year. When there are at least two of them, the first has a positive population and
  the last is of a later year than the first, the location has exactly one row in the
  growth analysis; otherwise it has none. The row holds the population of the first
  and of the last observation and the years between them, and its CAGR is ((end /
  start) ^ (1 / years) - 1) * 100 of these (a number when the end population is not
  negative). Every row of the growth analysis has a positive start population, at
  least one year between and its CAGR by this formula. From 100 in 2010 to 200 in 2012
  the CAGR of the analysis is (2 ^ (1/2) - 1) * 100, between 41.42 and 41.43.
\<close>

theorem cagr_of_first_and_last_observation:
  fixes population_df :: "population_record list"
  assumes "obs = filter (\<lambda>r. Population r \<noteq> None)
                   (sort_key Year (filter (\<lambda>r. location_key r = k) population_df))"
  shows "sorted (map Year obs)
     \<and> mset obs
         = filter_mset (\<lambda>r. location_key r = k \<and> Population r \<noteq> None) (mset population_df)
     \<and> (2 \<le> length obs \<and> 0 < the (Population (hd obs)) \<and> Year (hd obs) < Year (last obs)
          \<longrightarrow> (\<exists>g. filter (\<lambda>g. location_key g = k) (population_growth_analysis population_df)
                      = [g]
                 \<and> Start_Population g = the (Population (hd obs))
                 \<and> End_Population g = the (Population (last obs))
                 \<and> Years_Analyzed g = Year (last obs) - Year (hd obs)
                 \<and> CAGR_Pct g
                     = map_option (\<lambda>p. (p - 1) * 100)
                         (float_root
                            (real_of_int (End_Population g) / real_of_int (Start_Population g))
                            (Years_Analyzed g))
                 \<and> (0 \<le> End_Population g \<longrightarrow>
                      CAGR_Pct g
                        = Some (((real_of_int (End_Population g)
                                    / real_of_int (Start_Population g))
                                   powr (1 / real_of_int (Years_Analyzed g)) - 1) * 100))))
     \<and> (\<not> (2 \<le> length obs \<and> 0 < the (Population (hd obs))
            \<and> Year (hd obs) < Year (last obs))
          \<longrightarrow> filter (\<lambda>g. location_key g = k) (population_growth_analysis population_df) = [])
     \<and> (\<forall>g \<in> set (population_growth_analysis population_df).
          0 < Start_Population g \<and> 0 < Years_Analyzed g
          \<and> CAGR_Pct g
              = map_option (\<lambda>p. (p - 1) * 100)
                  (float_root
                     (real_of_int (End_Population g) / real_of_int (Start_Population g))
                     (Years_Analyzed g))
          \<and> (0 \<le> End_Population g \<longrightarrow>
               CAGR_Pct g
                 = Some (((real_of_int (End_Population g) / real_of_int (Start_Population g))
                            powr (1 / real_of_int (Years_Analyzed g)) - 1) * 100)))
     \<and> map CAGR_Pct (population_growth_analysis ex_population)
         = [Some ((2 powr (1 / 2) - 1) * 100)]
     \<and> 41.42 < ((2::real) powr (1 / 2) - 1) * 100 \<and> ((2::real) powr (1 / 2) - 1) * 100 < 41.43"
proof (intro conjI)
  let ?location_data = "filter (\<lambda>r. location_key r = k) population_df"
  let ?analysed = "2 \<le> length obs \<and> 0 < the (Population (hd obs))
                   \<and> Year (hd obs) < Year (last obs)"
  show "\<forall>g \<in> set (population_growth_analysis population_df).
          0 < Start_Population g \<and> 0 < Years_Analyzed g
          \<and> CAGR_Pct g
              = map_option (\<lambda>p. (p - 1) * 100)
                  (float_root
                     (real_of_int (End_Population g) / real_of_int (Start_Population g))
                     (Years_Analyzed g))
          \<and> (0 \<le> End_Population g \<longrightarrow>
               CAGR_Pct g
                 = Some (((real_of_int (End_Population g) / real_of_int (Start_Population g))
                            powr (1 / real_of_int (Years_Analyzed g)) - 1) * 100))"
    using growth_analysis_rows cagr_of_entry growth_cagr_of_entry by blast
  show "sorted (map Year obs)"
    unfolding assms by (rule sorted_observations)
  show "mset obs
         = filter_mset (\<lambda>r. location_key r = k \<and> Population r \<noteq> None) (mset population_df)"
    unfolding assms by (simp add: filter_filter_mset)
  have entry: "growth_entry k ?location_data \<noteq> None \<longleftrightarrow> ?analysed"
    unfolding assms by (auto simp: growth_entry_def Let_def)
  show "\<not> ?analysed
          \<longrightarrow> filter (\<lambda>g. location_key g = k) (population_growth_analysis population_df) = []"
    using entry by (auto simp: growth_analysis_of_location)
  show "?analysed
          \<longrightarrow> (\<exists>g. filter (\<lambda>g. location_key g = k) (population_growth_analysis population_df)
                      = [g]
                 \<and> Start_Population g = the (Population (hd obs))
                 \<and> End_Population g = the (Population (last obs))
                 \<and> Years_Analyzed g = Year (last obs) - Year (hd obs)
                 \<and> CAGR_Pct g
                     = map_option (\<lambda>p. (p - 1) * 100)
                         (float_root
                            (real_of_int (End_Population g) / real_of_int (Start_Population g))
                            (Years_Analyzed g))
                 \<and> (0 \<le> End_Population g \<longrightarrow>
                      CAGR_Pct g
                        = Some (((real_of_int (End_Population g)
                                    / real_of_int (Start_Population g))
                                   powr (1 / real_of_int (Years_Analyzed g)) - 1) * 100)))"
  proof
    assume analysed: ?analysed
    then have ne: "obs \<noteq> []" by auto
    from analysed entry obtain g where g: "growth_entry k ?location_data = Some g"
      by auto
    then have fields: "Start_Population g = the (Population (hd obs))"
      "End_Population g = the (Population (last obs))"
      "Years_Analyzed g = Year (last obs) - Year (hd obs)"
      unfolding assms by (auto simp: growth_entry_def Let_def split: if_splits)
    have "1 < length (remdups (map Year population_df))"
      using two_years_distinct [of "hd obs" population_df "last obs" Year]
        observations_of_table(1,2) [OF assms ne] analysed
      by simp
    moreover have "k \<in> location_key ` set population_df"
      using observations_of_table(3) [OF assms ne] .
    ultimately have
      "filter (\<lambda>g. location_key g = k) (population_growth_analysis population_df) = [g]"
      using g by (simp add: growth_analysis_of_location)
    with fields growth_cagr_of_entry [OF g] cagr_of_entry [OF g] show "\<exists>g.
        filter (\<lambda>g. location_key g = k) (population_growth_analysis population_df) = [g]
        \<and> Start_Population g = the (Population (hd obs))
        \<and> End_Population g = the (Population (last obs))
        \<and> Years_Analyzed g = Year (last obs) - Year (hd obs)
        \<and> CAGR_Pct g
            = map_option (\<lambda>p. (p - 1) * 100)
                (float_root
                   (real_of_int (End_Population g) / real_of_int (Start_Population g))
                   (Years_Analyzed g))
        \<and> (0 \<le> End_Population g \<longrightarrow>
             CAGR_Pct g
               = Some (((real_of_int (End_Population g)
                           / real_of_int (Start_Population g))
                          powr (1 / real_of_int (Years_Analyzed g)) - 1) * 100))"
      by blast
  qed
  show "map CAGR_Pct (population_growth_analysis ex_population)
         = [Some ((2 powr (1 / 2) - 1) * 100)]"
    by (simp add: ex_growth_analysis)
  have "1.4142 < sqrt 2"
    by (rule real_less_rsqrt) (simp add: power2_eq_square)
  moreover have "sqrt 2 < 1.4143"
    by (rule real_less_lsqrt) (simp_all add: power2_eq_square)
  ultimately show "41.42 < ((2::real) powr (1 / 2) - 1) * 100"
    and "((2::real) powr (1 / 2) - 1) * 100 < 41.43"
    by (simp_all add: powr_half_sqrt)
qed
theorem cagr_of_first_and_last_observation_witness:
  "(\<exists>g \<in> set (population_growth_analysis ex_zero_start).
      location_key g = (''Orlando'', ''FL'', ''Orange County'')
      \<and> Start_Population g = 100 \<and> End_Population g = 200 \<and> Years_Analyzed g = 2
      \<and> CAGR_Pct g = Some ((((200::real) / 100) powr (1 / 2) - 1) * 100))
   \<and> filter (\<lambda>g. location_key g = (''Tampa'', ''FL'', ''Hillsborough County''))
        (population_growth_analysis ex_zero_start) = []"
proof
  let ?k = "(''Orlando'', ''FL'', ''Orange County'')"
  let ?obs = "filter (\<lambda>r. Population r \<noteq> None)
                (sort_key Year (filter (\<lambda>r. location_key r = ?k) ex_zero_start))"
  have obs: "?obs = [ex_zero_start ! 2, ex_zero_start ! 0]"
    by (simp add: ex_zero_start_def location_key_def)
  note t = cagr_of_first_and_last_observation
    [where population_df = ex_zero_start and k = ?k, OF refl]
  have "2 \<le> length ?obs \<and> 0 < the (Population (hd ?obs)) \<and> Year (hd ?obs) < Year (last ?obs)"
    unfolding obs by (simp add: ex_zero_start_def)
  with t obtain g
    where g: "filter (\<lambda>g. location_key g = ?k) (population_growth_analysis ex_zero_start) = [g]"
      and f: "Start_Population g = the (Population (hd ?obs))"
        "End_Population g = the (Population (last ?obs))"
        "Years_Analyzed g = Year (last ?obs) - Year (hd ?obs)"
      and c: "0 \<le> End_Population g \<longrightarrow>
         CAGR_Pct g = Some (((real_of_int (End_Population g) / real_of_int (Start_Population g))
                              powr (1 / real_of_int (Years_Analyzed g)) - 1) * 100)"
    by blast
  have v: "Start_Population g = 100" "End_Population g = 200" "Years_Analyzed g = 2"
    unfolding f obs by (simp_all add: ex_zero_start_def)
  with c have cagr: "CAGR_Pct g = Some ((((200::real) / 100) powr (1 / 2) - 1) * 100)"
    by simp
  have "g \<in> set (filter (\<lambda>g. location_key g = ?k) (population_growth_analysis ex_zero_start))"
    unfolding g by simp
  then have "g \<in> set (population_growth_analysis ex_zero_start)" "location_key g = ?k"
    by simp_all
  with v cagr show "\<exists>g \<in> set (population_growth_analysis ex_zero_start).
      location_key g = ?k
      \<and> Start_Population g = 100 \<and> End_Population g = 200 \<and> Years_Analyzed g = 2
      \<and> CAGR_Pct g = Some ((((200::real) / 100) powr (1 / 2) - 1) * 100)"
    by blast
next
  let ?k = "(''Tampa'', ''FL'', ''Hillsborough County'')"
  let ?obs = "filter (\<lambda>r. Population r \<noteq> None)
                (sort_key Year (filter (\<lambda>r. location_key r = ?k) ex_zero_start))"
  have obs: "?obs = [ex_zero_start ! 3, ex_zero_start ! 1]"
    by (simp add: ex_zero_start_def location_key_def)
  have "\<not> (2 \<le> length ?obs \<and> 0 < the (Population (hd ?obs))
           \<and> Year (hd ?obs) < Year (last ?obs))"
    unfolding obs by (simp add: ex_zero_start_def)
  with cagr_of_first_and_last_observation
    [where population_df = ex_zero_start and k = ?k, OF refl]
  show "filter (\<lambda>g. location_key g = ?k) (population_growth_analysis ex_zero_start) = []"
    by blast
qed

section \<open>Properties of the strongest market\<close>

lemma sorted_le_last:
  "sorted (map f xs) \<Longrightarrow> x \<in> set xs \<Longrightarrow> f x \<le> f (last xs)"
  by (induction xs) (auto split: if_splits)

text \<open>
  The first position of the falling order: a position of a value that no value
  exceeds. A value that is not a number counts below every number.
\<close>

lemma first_of_nargsort_desc:
  assumes valid: "valid_argsort argsort" and ne: "items \<noteq> []"
  shows "nargsort_desc argsort items \<noteq> []
         \<and> hd (nargsort_desc argsort items) < length items
         \<and> (\<forall>j<length items. items ! j \<le> items ! hd (nargsort_desc argsort items))"
proof -
  let ?idx = "[0..<length items]"
  let ?nn = "rev (filter (\<lambda>i. items ! i \<noteq> None) ?idx)"
  let ?vals = "map (\<lambda>i. the (items ! i)) ?nn"
  let ?nan = "filter (\<lambda>i. items ! i = None) ?idx"
  let ?p = "argsort ?vals"
  have result: "nargsort_desc argsort items = rev (map (\<lambda>j. ?nn ! j) ?p) @ ?nan"
    by (simp add: nargsort_desc_def Let_def)
  from valid have perm: "mset ?p = mset [0..<length ?vals]"
    and sorted: "sorted (map (\<lambda>j. ?vals ! j) ?p)"
    by (simp_all add: valid_argsort_def)
  from perm have set_p: "set ?p = {0..<length ?nn}"
    by (metis mset_eq_setD set_upt length_map)
  show ?thesis
  proof (cases "?nn = []")
    case True
    then have none: "\<forall>i<length items. items ! i = None"
      by (auto simp: filter_empty_conv)
    from True set_p have "?p = []" by simp
    moreover from none have "?nan = ?idx"
      by (simp add: filter_id_conv)
    ultimately have "nargsort_desc argsort items = ?idx"
      using True unfolding result by simp
    with ne none show ?thesis
      by (simp add: upt_conv_Cons)
  next
    case False
    then have "?p \<noteq> []" using set_p by auto
    then have first: "hd (nargsort_desc argsort items) = ?nn ! last ?p"
      unfolding result by (simp add: hd_rev last_map)
    from \<open>?p \<noteq> []\<close> have "last ?p \<in> set ?p" by (rule last_in_set)
    with set_p have lt: "last ?p < length ?nn" by simp
    then have "?nn ! last ?p \<in> set ?nn" by (rule nth_mem)
    then have i: "?nn ! last ?p < length items" "items ! (?nn ! last ?p) \<noteq> None"
      by simp_all
    have "items ! j \<le> items ! (?nn ! last ?p)" if j: "j < length items" for j
    proof (cases "items ! j")
      case None
      then show ?thesis by simp
    next
      case (Some v)
      with j have "j \<in> set ?nn" by simp
      then obtain m where m: "m < length ?nn" "?nn ! m = j"
        by (meson in_set_conv_nth)
      with set_p have "m \<in> set ?p" by simp
      with sorted have "?vals ! m \<le> ?vals ! last ?p" by (rule sorted_le_last)
      with m lt have "the (items ! j) \<le> the (items ! (?nn ! last ?p))"
        by simp
      with Some i(2) show ?thesis by auto
    qed
    with first i(1) \<open>?p \<noteq> []\<close> show ?thesis
      unfolding result by simp
  qed
qed

lemma first_of_sort_values_desc:
  assumes "valid_argsort argsort" and "df \<noteq> []"
  shows "\<exists>i<length df. hd (sort_values_desc argsort col df) = df ! i
           \<and> (\<forall>j<length df. col (df ! j) \<le> col (df ! i))"
proof -
  let ?order = "nargsort_desc argsort (map col df)"
  from assms(2) have "map col df \<noteq> []" by simp
  from first_of_nargsort_desc [OF assms(1) this]
  have order: "?order \<noteq> []" and first: "hd ?order < length (map col df)"
    and top: "\<forall>j<length (map col df). map col df ! j \<le> map col df ! hd ?order"
    by blast+
  from order have "hd (sort_values_desc argsort col df) = df ! hd ?order"
    by (simp add: sort_values_desc_def hd_map)
  moreover have "\<forall>j<length df. col (df ! j) \<le> col (df ! hd ?order)"
  proof (intro allI impI)
    fix j assume j: "j < length df"
    with top have "map col df ! j \<le> map col df ! hd ?order" by simp
    with j first show "col (df ! j) \<le> col (df ! hd ?order)" by simp
  qed
  moreover from first have "hd ?order < length df" by simp
  ultimately show ?thesis by blast
qed
text \<open>
  C4. When the analysis holds a location, each fetcher reports one of them as the
  strongest market: a location of the analysis whose metric (the population CAGR, the
  composite score of employment) no location of the analysis exceeds. A metric that
  is not a number counts below every number. Which of several locations with the
  highest metric is reported is left to the sort, of which only that it sorts is
  assumed.
\<close>

theorem strongest_market_maximal:
  assumes "valid_argsort argsort"
  shows "(population_growth_analysis population_df \<noteq> [] \<longrightarrow>
      (\<exists>i<length (population_growth_analysis population_df).
         strongest_market argsort population_df
           = Some (population_growth_analysis population_df ! i)
         \<and> (\<forall>j<length (population_growth_analysis population_df).
               CAGR_Pct (population_growth_analysis population_df ! j)
                 \<le> CAGR_Pct (population_growth_analysis population_df ! i))))
   \<and> (employment_analysis employment_df \<noteq> [] \<longrightarrow>
      (\<exists>i<length (employment_analysis employment_df).
         strongest_employment_market argsort employment_df
           = Some (employment_analysis employment_df ! i)
         \<and> (\<forall>j<length (employment_analysis employment_df).
               Composite_Score (employment_analysis employment_df ! j)
                 \<le> Composite_Score (employment_analysis employment_df ! i))))"
  using first_of_sort_values_desc
      [OF assms, of "population_growth_analysis population_df" CAGR_Pct]
    first_of_sort_values_desc
      [OF assms, of "employment_analysis employment_df" Composite_Score]
  by (simp add: strongest_market_def strongest_employment_market_def Let_def)

lemma ex_tie_analysis:
  "population_growth_analysis ex_tie
   = [\<lparr>City = ''Orlando'', State = ''FL'', County = ''Orange County'', Years_Analyzed = 2,
       Start_Population = 100, End_Population = 200, Total_Growth_Pct = 100,
       CAGR_Pct = Some ((2 powr (1 / 2) - 1) * 100)\<rparr>,
      \<lparr>City = ''Tampa'', State = ''FL'', County = ''Hillsborough County'', Years_Analyzed = 2,
       Start_Population = 100, End_Population = 200, Total_Growth_Pct = 100,
       CAGR_Pct = Some ((2 powr (1 / 2) - 1) * 100)\<rparr>]"
proof -
  have keys: "sort (remdups (map location_key ex_tie))
      = [(''Orlando'', ''FL'', ''Orange County''), (''Tampa'', ''FL'', ''Hillsborough County'')]"
    by (simp add: ex_tie_def location_key_def)
  show ?thesis
    unfolding population_growth_analysis_def groupby_def keys
    by (simp add: ex_tie_def location_key_def growth_entry_def List.map_filter_simps
        Let_def float_root_def)
qed

lemma ex_employment_analysis:
  "employment_analysis ex_employment
   = [\<lparr>City = ''Orlando'', State = ''FL'', County = ''Orange County'', Years_Analyzed = 1,
       Start_Employed = 100, End_Employed = 105, Employment_Growth_Pct = 5,
       Employment_CAGR_Pct = Some 5, Start_Unemployment_Rate = 5,
       End_Unemployment_Rate = 4, Unemployment_Change = - 1, Composite_Score = Some 7\<rparr>]"
  by (simp add: employment_analysis_def ex_employment_def groupby_def location_key_def
      List.map_filter_simps employment_entry_def Let_def float_root_def)

lemma valid_stable_argsort: "valid_argsort stable_argsort"
  by (simp add: valid_argsort_def stable_argsort_def)

lemma valid_later_first_argsort: "valid_argsort later_first_argsort"
  by (simp add: valid_argsort_def later_first_argsort_def)

theorem strongest_market_maximal_witness:
  "(\<exists>g \<in> set (population_growth_analysis ex_tie).
      strongest_market stable_argsort ex_tie = Some g
      \<and> CAGR_Pct g = Some ((2 powr (1 / 2) - 1) * 100))
   \<and> (\<exists>a \<in> set (employment_analysis ex_employment).
      strongest_employment_market stable_argsort ex_employment = Some a
      \<and> City a = ''Orlando'' \<and> Composite_Score a = Some 7)"
proof -
  note t = strongest_market_maximal [OF valid_stable_argsort, where population_df = ex_tie
      and employment_df = ex_employment]
  let ?ga = "population_growth_analysis ex_tie"
  let ?ea = "employment_analysis ex_employment"
  have "?ga \<noteq> []" by (simp add: ex_tie_analysis)
  with t obtain i where i: "i < length ?ga" "strongest_market stable_argsort ex_tie = Some (?ga ! i)"
    by blast
  have "\<forall>g \<in> set ?ga. CAGR_Pct g = Some ((2 powr (1 / 2) - 1) * 100)"
    by (simp add: ex_tie_analysis)
  with i have first: "\<exists>g \<in> set ?ga. strongest_market stable_argsort ex_tie = Some g
      \<and> CAGR_Pct g = Some ((2 powr (1 / 2) - 1) * 100)"
    by (metis nth_mem)
  have "?ea \<noteq> []" by (simp add: ex_employment_analysis)
  with t obtain j where j: "j < length ?ea"
    "strongest_employment_market stable_argsort ex_employment = Some (?ea ! j)"
    by blast
  have "\<forall>a \<in> set ?ea. City a = ''Orlando'' \<and> Composite_Score a = Some 7"
    by (simp add: ex_employment_analysis)
  with j have "\<exists>a \<in> set ?ea. strongest_employment_market stable_argsort ex_employment = Some a
      \<and> City a = ''Orlando'' \<and> Composite_Score a = Some 7"
    by (metis nth_mem)
  with first show ?thesis by (rule conjI)
qed

text \<open>
  The claim as the specification states it fails: of Orlando and Tampa, which the
  analysis holds in this order with the same CAGR, a sort that puts the later of two
  equal values first has Tampa reported.
\<close>

theorem later_of_tied_markets_counterexample:
  "valid_argsort later_first_argsort
   \<and> map City (population_growth_analysis ex_tie) = [''Orlando'', ''Tampa'']
   \<and> map CAGR_Pct (population_growth_analysis ex_tie)
       = [Some ((2 powr (1 / 2) - 1) * 100), Some ((2 powr (1 / 2) - 1) * 100)]
   \<and> map_option City (strongest_market later_first_argsort ex_tie) = Some ''Tampa''"
proof (intro conjI)
  show "valid_argsort later_first_argsort" by (rule valid_later_first_argsort)
  show "map City (population_growth_analysis ex_tie) = [''Orlando'', ''Tampa'']"
    by (simp add: ex_tie_analysis)
  show "map CAGR_Pct (population_growth_analysis ex_tie)
       = [Some ((2 powr (1 / 2) - 1) * 100), Some ((2 powr (1 / 2) - 1) * 100)]"
    by (simp add: ex_tie_analysis)
  show "map_option City (strongest_market later_first_argsort ex_tie) = Some ''Tampa''"
    by (simp add: strongest_market_def ex_tie_analysis sort_values_desc_def nargsort_desc_def
        later_first_argsort_def Let_def)
qed

section \<open>Properties of the census fetcher\<close>

lemma concat_map_single:
  "distinct ys \<Longrightarrow>
   concat (map (\<lambda>y'. if y' = y then zs else []) ys) = (if y \<in> set ys then zs else [])"
  by (induction ys) auto

lemma filter_distinct_key:
  "distinct (map key xs) \<Longrightarrow> x \<in> set xs \<Longrightarrow> filter (\<lambda>a. key a = key x) xs = [x]"
proof (induction xs)
  case Nil
  then show ?case by simp
next
  case (Cons a xs)
  show ?case
  proof (cases "a = x")
    case True
    with Cons.prems have "key x \<notin> key ` set xs" by simp
    then have "\<forall>b \<in> set xs. key b \<noteq> key x" by (metis imageI)
    then have "filter (\<lambda>a. key a = key x) xs = []" by (simp add: filter_empty_conv)
    with True show ?thesis by simp
  next
    case False
    with Cons show ?thesis by auto
  qed
qed

text \<open>The records of one year: none before 2009, one for each area with a FIPS code
  from 2009 on.\<close>

lemma census_records_of_year:
  "filter (\<lambda>r. Year (fst r) = year) (all_census_data census target_areas start_year end_year)
   = (if start_year \<le> year \<and> year \<le> end_year \<and> 2009 \<le> year
      then map (census_request census year)
             (filter (\<lambda>area_info. \<not> no_valid_fips area_info) (map snd target_areas))
      else [])"
proof -
  let ?valid = "filter (\<lambda>area_info. \<not> no_valid_fips area_info) (map snd target_areas)"
  let ?zs = "if 2009 \<le> year then map (census_request census year) ?valid else []"
  have year: "Year (fst (census_request census y a)) = y" for y a
    by (simp add: census_request_def split: option.split)
  have one: "filter (\<lambda>r. Year (fst r) = year) (census_year census target_areas y)
             = (if y = year then ?zs else [])" for y
    by (auto simp: census_year_def filter_empty_conv year)
  have "filter (\<lambda>r. Year (fst r) = year) (all_census_data census target_areas start_year end_year)
        = concat (map (\<lambda>y. if y = year then ?zs else []) [start_year..end_year])"
    by (simp add: all_census_data_def filter_concat comp_def one)
  also have "\<dots> = (if year \<in> set [start_year..end_year] then ?zs else [])"
    by (rule concat_map_single) simp
  finally show ?thesis by auto
qed

text \<open>
  C2 (as amended). For the census fetcher, a target area with a county FIPS code and
  a requested year from 2009 on have exactly one population record and exactly one age
  record, whose value is missing when the fetch failed; no record is of a year before
  2009. Areas are told apart by city, state and county.
\<close>

theorem census_one_record_per_area_and_year:
  assumes "area_info \<in> set (map snd target_areas)"
    and "\<not> no_valid_fips area_info"
    and "distinct (map (\<lambda>a. (city a, state a, county a))
                    (filter (\<lambda>a. \<not> no_valid_fips a) (map snd target_areas)))"
    and "start_year \<le> year" and "year \<le> end_year" and "2009 \<le> year"
  shows "filter (\<lambda>r. Year r = year \<and> City r = city area_info \<and> State r = state area_info
                     \<and> County r = county area_info)
           (all_population_data census target_areas start_year end_year)
         = [\<lparr>City = city area_info, State = state area_info, County = county area_info,
             Year = year,
             Population = map_option fst
                            (census year (fips_state area_info) (fips_county area_info))\<rparr>]
       \<and> filter (\<lambda>r. Year r = year \<and> City r = city area_info \<and> State r = state area_info
                       \<and> County r = county area_info)
           (all_age_data census target_areas start_year end_year)
         = [\<lparr>City = city area_info, State = state area_info, County = county area_info,
             Year = year,
             Median_Age = map_option snd
                            (census year (fips_state area_info) (fips_county area_info))\<rparr>]
       \<and> (\<forall>r \<in> set (all_population_data census target_areas start_year end_year). 2009 \<le> Year r)
       \<and> (\<forall>r \<in> set (all_age_data census target_areas start_year end_year). 2009 \<le> Year r)"
proof -
  define valid where "valid = filter (\<lambda>a. \<not> no_valid_fips a) (map snd target_areas)"
  let ?key = "\<lambda>a. (city a, state a, county a)"
  let ?all = "all_census_data census target_areas start_year end_year"
  let ?here = "\<lambda>r. City r = city area_info \<and> State r = state area_info
                    \<and> County r = county area_info"
  have mem: "area_info \<in> set valid" using assms(1,2) by (simp add: valid_def)
  have "distinct (map ?key valid)" using assms(3) by (simp add: valid_def)
  then have one: "filter (\<lambda>a. ?key a = ?key area_info) valid = [area_info]"
    using mem by (rule filter_distinct_key)
  have of_year: "filter (\<lambda>r. Year (fst r) = year) ?all = map (census_request census year) valid"
    using assms(4-6) by (simp add: census_records_of_year valid_def)
  have loc: "?here (fst (census_request census year a)) \<longleftrightarrow> ?key a = ?key area_info"
    "?here (snd (census_request census year a)) \<longleftrightarrow> ?key a = ?key area_info" for a
    by (auto simp: census_request_def split: option.split)
  have same_year: "Year (snd r) = Year (fst r)" if "r \<in> set ?all" for r
    using that
    by (auto simp: all_census_data_def census_year_def census_request_def
        split: option.splits if_splits)
  have sel_fst: "filter (\<lambda>r. ?here (fst r)) (map (census_request census year) valid)
                 = [census_request census year area_info]"
    by (simp add: filter_map comp_def loc one del: prod.inject)
  have sel_snd: "filter (\<lambda>r. ?here (snd r)) (map (census_request census year) valid)
                 = [census_request census year area_info]"
    by (simp add: filter_map comp_def loc one del: prod.inject)
  have "filter (\<lambda>r. Year r = year \<and> ?here r)
          (all_population_data census target_areas start_year end_year)
        = map fst (filter (\<lambda>r. ?here (fst r)) (filter (\<lambda>r. Year (fst r) = year) ?all))"
    by (simp add: all_population_data_def filter_map comp_def conj_commute)
  also have "\<dots> = [fst (census_request census year area_info)]"
    unfolding of_year sel_fst by simp
  finally have pop: "filter (\<lambda>r. Year r = year \<and> ?here r)
      (all_population_data census target_areas start_year end_year)
      = [fst (census_request census year area_info)]" .
  have "filter (\<lambda>r. Year r = year \<and> ?here r)
          (all_age_data census target_areas start_year end_year)
        = map snd (filter (\<lambda>r. ?here (snd r)) (filter (\<lambda>r. Year (snd r) = year) ?all))"
    by (simp add: all_age_data_def filter_map comp_def conj_commute)
  also have "filter (\<lambda>r. Year (snd r) = year) ?all = filter (\<lambda>r. Year (fst r) = year) ?all"
    by (rule filter_cong) (simp_all add: same_year)
  also have "map snd (filter (\<lambda>r. ?here (snd r)) (filter (\<lambda>r. Year (fst r) = year) ?all))
        = [snd (census_request census year area_info)]"
    unfolding of_year sel_snd by simp
  finally have age: "filter (\<lambda>r. Year r = year \<and> ?here r)
      (all_age_data census target_areas start_year end_year)
      = [snd (census_request census year area_info)]" .
  have late: "2009 \<le> Year (fst r) \<and> 2009 \<le> Year (snd r)" if "r \<in> set ?all" for r
    using that
    by (auto simp: all_census_data_def census_year_def census_request_def
        split: option.splits if_splits)
  have "fst (census_request census year area_info)
        = \<lparr>City = city area_info, State = state area_info, County = county area_info,
           Year = year,
           Population = map_option fst
                          (census year (fips_state area_info) (fips_county area_info))\<rparr>"
    and "snd (census_request census year area_info)
        = \<lparr>City = city area_info, State = state area_info, County = county area_info,
           Year = year,
           Median_Age = map_option snd
                          (census year (fips_state area_info) (fips_county area_info))\<rparr>"
    by (auto simp: census_request_def split: option.split)
  with pop age late show ?thesis
    by (auto simp: all_population_data_def all_age_data_def)
qed

theorem census_one_record_per_area_and_year_witness:
  "filter (\<lambda>r. Year r = 2009 \<and> City r = ''Orlando'' \<and> State r = ''FL''
                 \<and> County r = ''Orange County'')
     (all_population_data ex_acs5 ex_areas 2008 2010)
   = [\<lparr>City = ''Orlando'', State = ''FL'', County = ''Orange County'', Year = 2009,
       Population = Some 1100000\<rparr>]
   \<and> filter (\<lambda>r. Year r = 2010 \<and> City r = ''Orlando'' \<and> State r = ''FL''
                   \<and> County r = ''Orange County'')
       (all_population_data ex_acs5 ex_areas 2008 2010)
     = [\<lparr>City = ''Orlando'', State = ''FL'', County = ''Orange County'', Year = 2010,
         Population = None\<rparr>]"
proof -
  let ?orlando = "snd (ex_areas ! 0)"
  have h: "?orlando \<in> set (map snd ex_areas)" "\<not> no_valid_fips ?orlando"
    "distinct (map (\<lambda>a. (city a, state a, county a))
                (filter (\<lambda>a. \<not> no_valid_fips a) (map snd ex_areas)))"
    by (simp_all add: ex_areas_def no_valid_fips_def)
  have v: "city ?orlando = ''Orlando''" "state ?orlando = ''FL''"
    "county ?orlando = ''Orange County''" "fips_state ?orlando = ''12''"
    "fips_county ?orlando = ''095''"
    by (simp_all add: ex_areas_def)
  from census_one_record_per_area_and_year
    [where census = ex_acs5 and start_year = 2008 and end_year = 2010 and year = 2009, OF h]
    census_one_record_per_area_and_year
    [where census = ex_acs5 and start_year = 2008 and end_year = 2010 and year = 2010, OF h]
  show ?thesis
    by (simp add: v ex_acs5_def)
qed

text \<open>
  The claim as the specification states it fails: with the years 2008 to 2009
  requested, Orlando has a county FIPS code and no record for 2008.
\<close>

theorem census_year_before_2009_counterexample:
  "snd (ex_areas ! 0) \<in> set (map snd ex_areas) \<and> \<not> no_valid_fips (snd (ex_areas ! 0))
   \<and> (2008::int) \<in> set [2008..2009]
   \<and> filter (\<lambda>r. Year r = 2008) (all_population_data ex_acs5 ex_areas 2008 2009) = []
   \<and> filter (\<lambda>r. Year r = 2008) (all_age_data ex_acs5 ex_areas 2008 2009) = []"
  by (simp add: ex_areas_def no_valid_fips_def all_population_data_def all_age_data_def
      all_census_data_def census_year_def census_request_def ex_acs5_def upto.simps)
subsection \<open>The employment fetcher and failed requests\<close>

lemma employment_records_year:
  "r \<in> set (employment_records year d) \<Longrightarrow> Year r = year"
  by (induction year d rule: employment_records.induct) (auto simp: Let_def split: if_splits)

text \<open>
  The employment fetcher appends a record only inside the branch of a request that
  succeeded: a year whose requests all fail, or are answered with another status, has
  no record at all, where the census fetcher appends a record without values.
\<close>

lemma employment_failed_year_has_no_record:
  assumes "\<forall>batch_series. bls_api year batch_series \<in> {Bls_Raised, Bls_Not_Succeeded}"
  shows "\<forall>r \<in> set (all_employment_data bls_api target_areas start_year end_year). Year r \<noteq> year"
proof
  fix r
  assume "r \<in> set (all_employment_data bls_api target_areas start_year end_year)"
  then obtain y batch_series
    where r: "r \<in> set (bls_batch bls_api (bls_area_codes target_areas) y batch_series)"
    by (auto simp: all_employment_data_def Let_def split: if_splits)
  show "Year r \<noteq> year"
  proof
    assume "Year r = year"
    moreover from r have "Year r = y"
      by (auto simp: bls_batch_def dest: employment_records_year split: bls_result.splits)
    ultimately have "y = year" by simp
    with assms have "bls_api y batch_series \<in> {Bls_Raised, Bls_Not_Succeeded}" by blast
    then have "bls_batch bls_api (bls_area_codes target_areas) y batch_series = []"
      by (auto simp: bls_batch_def)
    with r show False by simp
  qed
qed

lemma employment_failed_year_example:
  "all_employment_data ex_bls ex_areas 2019 2020
   = [\<lparr>City = ''Orlando'', State = ''FL'', County = ''Orange County'', Year = 2019,
       unemployment_rate = Some 3.1, employed = Some 700000\<rparr>]"
  by code_simp

section \<open>Properties of the crime table parser\<close>

lemma drop_earlier_other_types:
  "filter (\<lambda>r. fst (snd r) \<noteq> ''Crime Index'') (drop_earlier_crime_index rs)
   = filter (\<lambda>r. fst (snd r) \<noteq> ''Crime Index'') rs"
  by (induction rs) auto

lemma drop_earlier_crime_index_last:
  "filter (\<lambda>r. fst r = c \<and> fst (snd r) = ''Crime Index'') (drop_earlier_crime_index rs)
   = (if filter (\<lambda>r. fst r = c \<and> fst (snd r) = ''Crime Index'') rs = [] then []
      else [last (filter (\<lambda>r. fst r = c \<and> fst (snd r) = ''Crime Index'') rs)])"
proof (induction rs)
  case Nil
  then show ?case by simp
next
  case (Cons r rs)
  let ?P = "\<lambda>r. fst r = c \<and> fst (snd r) = ''Crime Index''"
  show ?case
  proof (cases "?P r")
    case False
    with Cons show ?thesis by auto
  next
    case True
    show ?thesis
    proof (cases "list_ex (\<lambda>r'. fst r' = fst r \<and> fst (snd r') = fst (snd r)) rs")
      case later: True
      then have "filter ?P rs \<noteq> []"
        using True by (auto simp: list_ex_iff filter_empty_conv)
      with Cons True later show ?thesis by simp
    next
      case none: False
      then have "filter ?P rs = []"
        using True by (auto simp: list_ex_iff filter_empty_conv)
      with Cons True none show ?thesis by simp
    qed
  qed
qed

lemma footer_only_without_crime_index:
  "footer_rows city_name headers foot crime_data \<noteq> []
   \<Longrightarrow> \<not> list_ex (\<lambda>d. dict_get d ''Crime_Type'' = ''Crime Index'') crime_data"
  by (auto simp: footer_rows_def split: option.splits if_splits)

text \<open>
  C8 (as amended). The table the parser returns has, for every city, at most one row
  whose crime type is "Crime Index": the footer's row is added only when no body row
  gave one, and of the Crime Index rows of a city only the one constructed last is
  kept. The rows of every other crime type are all kept, in their order, whether or
  not a city and crime type occur twice.
\<close>

theorem crime_index_rows_deduplicated:
  assumes "parse_crime_table (Some t) city_name = Inr (Some df)"
  shows "(\<forall>c. length (filter (\<lambda>r. fst r = c \<and> fst (snd r) = ''Crime Index'') (crime_rows df))
               \<le> 1)
     \<and> (\<exists>headers rows.
          thead t = Some (Some headers) \<and> tbody t = Some rows
          \<and> (footer_rows city_name (map strip headers) (tfoot t)
                (body_rows city_name (map strip headers) rows) \<noteq> []
              \<longrightarrow> \<not> list_ex (\<lambda>d. dict_get d ''Crime_Type'' = ''Crime Index'')
                        (body_rows city_name (map strip headers) rows))
          \<and> (\<forall>c. filter (\<lambda>r. fst r = c \<and> fst (snd r) = ''Crime Index'') (crime_rows df)
                 = (if filter (\<lambda>r. fst r = c \<and> fst (snd r) = ''Crime Index'')
                         (table_rows (crime_data_of city_name (map strip headers) rows (tfoot t)))
                       = [] then []
                    else [last (filter (\<lambda>r. fst r = c \<and> fst (snd r) = ''Crime Index'')
                                  (table_rows (crime_data_of city_name (map strip headers) rows
                                                 (tfoot t))))]))
          \<and> filter (\<lambda>r. fst (snd r) \<noteq> ''Crime Index'') (crime_rows df)
              = filter (\<lambda>r. fst (snd r) \<noteq> ''Crime Index'')
                  (table_rows (crime_data_of city_name (map strip headers) rows (tfoot t))))"
proof -
  from assms obtain headers rows where t: "thead t = Some (Some headers)" "tbody t = Some rows"
    and df: "df = frame_of (crime_data_of city_name (map strip headers) rows (tfoot t))"
    by (auto simp: parse_crime_table_def split: option.splits)
  let ?rs = "table_rows (crime_data_of city_name (map strip headers) rows (tfoot t))"
  have rows: "crime_rows df = drop_earlier_crime_index ?rs"
    by (simp add: df frame_of_def)
  have one: "length (filter (\<lambda>r. fst r = c \<and> fst (snd r) = ''Crime Index'') (crime_rows df)) \<le> 1"
    for c
    unfolding rows drop_earlier_crime_index_last by simp
  have last: "filter (\<lambda>r. fst r = c \<and> fst (snd r) = ''Crime Index'') (crime_rows df)
      = (if filter (\<lambda>r. fst r = c \<and> fst (snd r) = ''Crime Index'') ?rs = [] then []
         else [last (filter (\<lambda>r. fst r = c \<and> fst (snd r) = ''Crime Index'') ?rs)])" for c
    unfolding rows by (rule drop_earlier_crime_index_last)
  have others: "filter (\<lambda>r. fst (snd r) \<noteq> ''Crime Index'') (crime_rows df)
      = filter (\<lambda>r. fst (snd r) \<noteq> ''Crime Index'') ?rs"
    unfolding rows by (rule drop_earlier_other_types)
  have foot: "footer_rows city_name (map strip headers) (tfoot t)
                (body_rows city_name (map strip headers) rows) \<noteq> []
              \<longrightarrow> \<not> list_ex (\<lambda>d. dict_get d ''Crime_Type'' = ''Crime Index'')
                        (body_rows city_name (map strip headers) rows)"
    using footer_only_without_crime_index by blast
  from one t foot last others show ?thesis by blast
qed
lemma ex_crtable_parsed:
  "parse_crime_table (Some ex_crtable) ''Orlando, FL''
   = Inr (Some \<lparr>crime_columns = [''2019'', ''2020''],
                crime_rows =
                  [(''Orlando, FL'', ''Murders'', [Some ''5 (2.1)'', Some ''0'']),
                   (''Orlando, FL'', ''Murders'', [Some ''1,234 (56.7)'', Some ''7'']),
                   (''Orlando, FL'', ''Crime Index'', [Some ''345.1'', Some ''Not Found''])]\<rparr>)"
  by code_simp

theorem crime_index_rows_deduplicated_witness:
  "(\<exists>df. parse_crime_table (Some ex_crtable) ''Orlando, FL'' = Inr (Some df)
      \<and> length (filter (\<lambda>r. fst r = ''Orlando, FL'' \<and> fst (snd r) = ''Crime Index'')
                  (crime_rows df)) \<le> 1)"
proof -
  obtain df where df: "parse_crime_table (Some ex_crtable) ''Orlando, FL'' = Inr (Some df)"
    using ex_crtable_parsed by blast
  from crime_index_rows_deduplicated [OF df] df show ?thesis by blast
qed

text \<open>
  The claim as the specification states it fails: the two rows of Orlando labelled
  Murders, a city and crime type that occur twice, are both in the table returned.
\<close>

theorem duplicate_crime_type_counterexample:
  "\<exists>df. parse_crime_table (Some ex_crtable) ''Orlando, FL'' = Inr (Some df)
     \<and> filter (\<lambda>r. fst r = ''Orlando, FL'' \<and> fst (snd r) = ''Murders'') (crime_rows df)
       = [(''Orlando, FL'', ''Murders'', [Some ''5 (2.1)'', Some ''0'']),
          (''Orlando, FL'', ''Murders'', [Some ''1,234 (56.7)'', Some ''7''])]"
  by (simp add: ex_crtable_parsed)

section \<open>Properties of the reconciliation with crime data\<close>

text \<open>
  The year columns of a table the parser returns are named by numbers, none of which
  ends in \<^verbatim>\<open>_count\<close>: the reconcile operation takes none of them for a year column
  and returns the demographic table as it is, without a Crime_Index column.
\<close>

lemma isdigit_not_count: "isdigit col \<Longrightarrow> \<not> suffix ''_count'' col"
proof
  assume d: "isdigit col" and s: "suffix ''_count'' col"
  from s have "set ''_count'' \<subseteq> set col" by (rule set_mono_suffix)
  then have "CHR ''_'' \<in> set col" by auto
  with d have "is_digit (CHR ''_'')" by (auto simp: isdigit_def list_all_iff)
  then show False by (simp add: is_digit_def)
qed

lemma parsed_columns_not_year_columns:
  "year_columns (crime_columns (frame_of crime_data)) = []"
  by (auto simp: year_columns_def frame_of_def year_cols_of_def filter_empty_conv
      dest: isdigit_not_count)

lemma parsed_crime_table_never_merged:
  assumes "parse_crime_table table city_name = Inr (Some crime)"
  shows "analyze_and_visualize_data population_df age_df employment_df (Some crime) (Some areas)
         = Inr (demographic_merge population_df age_df employment_df)"
proof -
  from assms obtain crime_data where "crime = frame_of crime_data"
    by (auto simp: parse_crime_table_def split: option.splits)
  then have "crime_summary crime areas = None"
    by (simp add: crime_summary_def parsed_columns_not_year_columns Let_def)
  then show ?thesis
    by (simp add: analyze_and_visualize_data_def merged_demographic_data_def Let_def
        report_of_demographic_merge)
qed

text \<open>
  Crime rows whose year columns do end in \<^verbatim>\<open>_count\<close> are merged, and the Crime_Index
  they give is the text of the crime table's cell. The report then formats that text
  as a number, and the operation raises instead of returning the merged table.
\<close>

lemma crime_index_text_raises:
  "merged_demographic_data ex_county_population [] None (Some ex_crime_one_city) (Some ex_areas)
     = \<lparr>columns = [''County'', ''Population'', ''Crime_Index''],
        rows = [(''Orange County'', [Some (Int_value 1400000), Some (Str_value ''390.1'')]),
                (''Hillsborough County'', [Some (Int_value 1500000), None])]\<rparr>
   \<and> analyze_and_visualize_data ex_county_population [] None (Some ex_crime_one_city)
         (Some ex_areas)
     = Inl ValueError"
  by code_simp

text \<open>
  C1. The reconcile operation is given the crime table the parser makes of the page of
  Orlando, which has a Crime Index row with the values of 2019 and 2020, the target
  areas of Orlando (Orange County) and Tampa (Hillsborough County) and the populations
  of both counties. The index of the most recent year is to be joined to the row of
  Orange County, and the row of Hillsborough County to have a null Crime_Index. The
  operation returns the population table as it is: no Crime_Index column is added,
  because the year columns of the parser, named \<^verbatim>\<open>2019\<close> and \<^verbatim>\<open>2020\<close>, are not among
  the columns ending in \<^verbatim>\<open>_count\<close> that line 45 takes for year columns.
\<close>

theorem parsed_crime_index_is_not_merged:
  "parse_crime_table (Some ex_crtable_index) ''Orlando, FL'' = Inr (Some ex_parsed_crime)
   \<and> analyze_and_visualize_data ex_county_population [] None (Some ex_parsed_crime)
         (Some ex_areas)
     = Inr \<lparr>columns = [''County'', ''Population''],
            rows = [(''Orange County'', [Some (Int_value 1400000)]),
                    (''Hillsborough County'', [Some (Int_value 1500000)])]\<rparr>"
  by code_simp

end
